theory Spec2Isabelle
  imports Complex_Main
begin

section \<open>Data model of the hover-animated network graph\<close>

text \<open>
  The repository draws, inside each tile of a page, a set of moving nodes joined by
  edges. Three scripts share one engine with a depth axis: \<^verbatim>\<open>Code/network_graph.js\<close>
  (static pages), the filter-page script and the tile-graph script. A fourth, older script
  is flat (no depth axis) and is modelled separately further down.

  JavaScript numbers are modelled as real numbers: the development speaks about the
  arithmetic the code writes down, not about IEEE rounding.
\<close>

text \<open>One simulated particle: the object literal pushed by \<^verbatim>\<open>createNodes\<close>.\<close>

record node =
  x :: real
  y :: real
  z :: real
  vx :: real
  vy :: real
  vz :: real

text \<open>
  The drawing surface. \<^verbatim>\<open>canvas.width\<close> and \<^verbatim>\<open>canvas.height\<close> are unsigned
  integers in the DOM.
\<close>

record canvas =
  width :: nat
  height :: nat

text \<open>
  The constants each script declares at the top of its closure. \<^verbatim>\<open>dpr\<close> is
  \<^verbatim>\<open>window.devicePixelRatio || 1\<close>; the static-page script never divides by it, which
  is \<open>dpr = 1\<close>. \<^verbatim>\<open>edgeAlpha\<close> is the literal factor in the edge-opacity formula
  (\<^verbatim>\<open>0.3\<close> in two scripts, absent, that is \<open>1\<close>, in the third).
\<close>

record config =
  numNodes :: nat
  maxDistance :: real
  baseNodeSize :: real
  basePathWidth :: real
  borderWidth :: real
  speedMultiplier :: real
  perspectiveDepth :: real
  minNodeSize :: real
  edgeAlpha :: real
  dpr :: real

definition networkGraphConfig :: config where
  "networkGraphConfig =
     \<lparr>numNodes = 17, maxDistance = 150, baseNodeSize = 10, basePathWidth = 7,
      borderWidth = 1, speedMultiplier = 0.2, perspectiveDepth = 100, minNodeSize = 10,
      edgeAlpha = 0.3, dpr = 1\<rparr>"

definition filterPageConfig :: "real \<Rightarrow> config" where
  "filterPageConfig ratio =
     \<lparr>numNodes = 13, maxDistance = 150, baseNodeSize = 10, basePathWidth = 5,
      borderWidth = 1, speedMultiplier = 0.2, perspectiveDepth = 100, minNodeSize = 6,
      edgeAlpha = 0.3, dpr = ratio\<rparr>"

text \<open>
  The tile-graph script fixes \<^verbatim>\<open>perspectiveDepth = canvas.height / dpr\<close> once, from
  the canvas height at construction time.
\<close>

definition tileGraphConfig :: "real \<Rightarrow> nat \<Rightarrow> config" where
  "tileGraphConfig ratio initialHeight =
     \<lparr>numNodes = 20, maxDistance = 150, baseNodeSize = 8, basePathWidth = 3,
      borderWidth = 1, speedMultiplier = 0.2,
      perspectiveDepth = real initialHeight / ratio, minNodeSize = 5,
      edgeAlpha = 1, dpr = ratio\<rparr>"

text \<open>The bounds the code compares against: \<^verbatim>\<open>canvas.width / dpr\<close> and
  \<^verbatim>\<open>canvas.height / dpr\<close>.\<close>

definition boundW :: "config \<Rightarrow> canvas \<Rightarrow> real" where
  "boundW cfg cv = real (width cv) / dpr cfg"

definition boundH :: "config \<Rightarrow> canvas \<Rightarrow> real" where
  "boundH cfg cv = real (height cv) / dpr cfg"

section \<open>Simulator: \<^verbatim>\<open>updateNodes\<close>\<close>

text \<open>
  The body of the \<^verbatim>\<open>forEach\<close> callback: three additions, then three reflection
  tests on the coordinates just written.
\<close>

definition updateNode :: "config \<Rightarrow> canvas \<Rightarrow> node \<Rightarrow> node" where
  "updateNode cfg cv n =
     (let n1 = n\<lparr>x := x n + vx n\<rparr>;
          n2 = n1\<lparr>y := y n1 + vy n1\<rparr>;
          n3 = n2\<lparr>z := z n2 + vz n2\<rparr>;
          n4 = (if x n3 < 0 \<or> x n3 > boundW cfg cv then n3\<lparr>vx := vx n3 * (- 1)\<rparr> else n3);
          n5 = (if y n4 < 0 \<or> y n4 > boundH cfg cv then n4\<lparr>vy := vy n4 * (- 1)\<rparr> else n4);
          n6 = (if z n5 < 0 \<or> z n5 > perspectiveDepth cfg then n5\<lparr>vz := vz n5 * (- 1)\<rparr> else n5)
      in n6)"

definition updateNodes :: "config \<Rightarrow> canvas \<Rightarrow> node list \<Rightarrow> node list" where
  "updateNodes cfg cv ns = map (updateNode cfg cv) ns"

section \<open>Renderer: \<^verbatim>\<open>getNodeSize\<close> and \<^verbatim>\<open>drawNodesAndEdges\<close>\<close>

definition getNodeSize :: "config \<Rightarrow> real \<Rightarrow> real" where
  "getNodeSize cfg depth =
     minNodeSize cfg + ((baseNodeSize cfg - minNodeSize cfg) * (depth / perspectiveDepth cfg))"

text \<open>The defensive clamp at the head of the render callback, written back into the node.\<close>

definition clampNode :: "config \<Rightarrow> canvas \<Rightarrow> node \<Rightarrow> node" where
  "clampNode cfg cv n =
     (let n1 = n\<lparr>x := max 0 (min (boundW cfg cv) (x n))\<rparr>;
          n2 = n1\<lparr>y := max 0 (min (boundH cfg cv) (y n1))\<rparr>;
          n3 = n2\<lparr>z := max 0 (min (perspectiveDepth cfg) (z n2))\<rparr>
      in n3)"

text \<open>
  What reaches the canvas, as a trace. Each entry carries the loop indices at which it
  was issued: \<open>Disc index x y radius\<close> for the \<^verbatim>\<open>arc\<close> of a node and
  \<open>Edge index j x1 y1 x2 y2 lineWidth opacity\<close> for a stroked line.
\<close>

datatype draw_op =
    Background
  | Disc nat real real real
  | Edge nat nat real real real real real real

definition distance3 :: "node \<Rightarrow> node \<Rightarrow> real" where
  "distance3 a b = sqrt ((x a - x b)\<^sup>2 + (y a - y b)\<^sup>2 + (z a - z b)\<^sup>2)"

text \<open>The body of the inner \<^verbatim>\<open>for\<close> loop, for one \<open>j\<close>.\<close>

definition drawEdge :: "config \<Rightarrow> nat \<Rightarrow> node \<Rightarrow> nat \<Rightarrow> node \<Rightarrow> draw_op list" where
  "drawEdge cfg index nd j otherNode =
     (let distance = distance3 nd otherNode
      in if distance < maxDistance cfg
         then [Edge index j (x nd) (y nd) (x otherNode) (y otherNode)
                 (basePathWidth cfg * (z nd / perspectiveDepth cfg))
                 ((1 - distance / maxDistance cfg) * edgeAlpha cfg)]
         else [])"

text \<open>The inner loop: \<^verbatim>\<open>for (let j = index + 1; j < nodes.length; j++)\<close>.\<close>

definition edgesFrom :: "config \<Rightarrow> node list \<Rightarrow> nat \<Rightarrow> draw_op list" where
  "edgesFrom cfg ns index =
     concat (map (\<lambda>j. drawEdge cfg index (ns ! index) j (ns ! j)) [index + 1 ..< length ns])"

text \<open>
  One call of the \<^verbatim>\<open>forEach\<close> callback. The clamp mutates the node in the array
  before the disc and the edges of this index are drawn; the nodes at larger indices are
  read as they are stored at that moment.
\<close>

definition drawStep :: "config \<Rightarrow> canvas \<Rightarrow> nat \<Rightarrow> node list \<times> draw_op list \<Rightarrow> node list \<times> draw_op list" where
  "drawStep cfg cv index st =
     (let ns = fst st;
          nd = clampNode cfg cv (ns ! index);
          ns' = ns[index := nd]
      in (ns', snd st @ [Disc index (x nd) (y nd) (getNodeSize cfg (z nd))] @ edgesFrom cfg ns' index))"

definition drawNodesAndEdges :: "config \<Rightarrow> canvas \<Rightarrow> node list \<Rightarrow> node list \<times> draw_op list" where
  "drawNodesAndEdges cfg cv ns = fold (drawStep cfg cv) [0 ..< length ns] (ns, [Background])"

section \<open>Lifecycle of one graph instance\<close>

text \<open>
  The closure state of one tile in the three scripts with a depth axis. The last four
  fields are the environment as this instance sees it: the animation-frame callbacks the
  browser holds for it (each one is \<^verbatim>\<open>animate\<close>), the last handle the browser
  issued, the canvas content, and a count of the calls of \<^verbatim>\<open>drawNodesAndEdges\<close>.
  \<^verbatim>\<open>animationFrameId\<close> is \<open>None\<close> for \<^verbatim>\<open>undefined\<close> and \<^verbatim>\<open>null\<close>.
\<close>

record graph_instance =
  canvas :: canvas
  nodes :: "node list"
  animationFrameId :: "nat option"
  frameRequests :: "nat list"
  lastRequest :: nat
  painted :: "draw_op list"
  renders :: nat

text \<open>Handles are positive integers, counted up by the browser.\<close>

definition requestAnimationFrame :: "graph_instance \<Rightarrow> nat \<times> graph_instance" where
  "requestAnimationFrame s =
     (let h = lastRequest s + 1
      in (h, s\<lparr>frameRequests := frameRequests s @ [h], lastRequest := h\<rparr>))"

definition cancelAnimationFrame :: "nat \<Rightarrow> graph_instance \<Rightarrow> graph_instance" where
  "cancelAnimationFrame h s = s\<lparr>frameRequests := removeAll h (frameRequests s)\<rparr>"

text \<open>JavaScript truthiness of the handle variable: \<^verbatim>\<open>undefined\<close>, \<^verbatim>\<open>null\<close> and
  \<^verbatim>\<open>0\<close> are falsy.\<close>

definition truthy :: "nat option \<Rightarrow> bool" where
  "truthy v = (case v of None \<Rightarrow> False | Some h \<Rightarrow> h \<noteq> 0)"

text \<open>A call of \<^verbatim>\<open>drawNodesAndEdges\<close> on the instance: it replaces the canvas content
  and writes the clamped nodes back.\<close>

definition render :: "config \<Rightarrow> graph_instance \<Rightarrow> graph_instance" where
  "render cfg s =
     (let r = drawNodesAndEdges cfg (canvas s) (nodes s)
      in s\<lparr>nodes := fst r, painted := snd r, renders := renders s + 1\<rparr>)"

definition animate :: "config \<Rightarrow> graph_instance \<Rightarrow> graph_instance" where
  "animate cfg s =
     (let s1 = render cfg s;
          s2 = s1\<lparr>nodes := updateNodes cfg (canvas s1) (nodes s1)\<rparr>;
          r = requestAnimationFrame s2
      in (snd r)\<lparr>animationFrameId := Some (fst r)\<rparr>)"

definition mouseover :: "config \<Rightarrow> graph_instance \<Rightarrow> graph_instance" where
  "mouseover cfg s = (if \<not> truthy (animationFrameId s) then animate cfg s else s)"

definition mouseleave :: "config \<Rightarrow> graph_instance \<Rightarrow> graph_instance" where
  "mouseleave cfg s =
     (case animationFrameId s of
        None \<Rightarrow> s
      | Some h \<Rightarrow>
          if h \<noteq> 0
          then render cfg ((cancelAnimationFrame h s)\<lparr>animationFrameId := None\<rparr>)
          else s)"

text \<open>The window's \<^verbatim>\<open>resize\<close> listener; the new size is what the layout reports.\<close>

definition resize :: "config \<Rightarrow> canvas \<Rightarrow> graph_instance \<Rightarrow> graph_instance" where
  "resize cfg cv s = render cfg (s\<lparr>canvas := cv, painted := [Background]\<rparr>)"

text \<open>The browser reaches the next display refresh: it takes the callbacks requested so
  far and runs them.\<close>

definition animationFrame :: "config \<Rightarrow> graph_instance \<Rightarrow> graph_instance" where
  "animationFrame cfg s =
     fold (\<lambda>h. animate cfg) (frameRequests s) (s\<lparr>frameRequests := []\<rparr>)"

datatype event = MouseOver | MouseLeave | Resize canvas | AnimationFrame

fun step :: "config \<Rightarrow> event \<Rightarrow> graph_instance \<Rightarrow> graph_instance" where
  "step cfg MouseOver s = mouseover cfg s"
| "step cfg MouseLeave s = mouseleave cfg s"
| "step cfg (Resize cv) s = resize cfg cv s"
| "step cfg AnimationFrame s = animationFrame cfg s"

definition run :: "config \<Rightarrow> event list \<Rightarrow> graph_instance \<Rightarrow> graph_instance" where
  "run cfg evs s = fold (step cfg) evs s"

text \<open>
  \<^verbatim>\<open>createNodes\<close>; \<open>rnd k\<close> is the value of the \<open>k\<close>-th call of \<^verbatim>\<open>Math.random\<close>
  made by this call, six per node in the order of the object literal.
\<close>

definition createNodes :: "config \<Rightarrow> canvas \<Rightarrow> (nat \<Rightarrow> real) \<Rightarrow> node list" where
  "createNodes cfg cv rnd =
     map (\<lambda>i. \<lparr>x = rnd (6 * i) * real (width cv) / dpr cfg,
               y = rnd (6 * i + 1) * real (height cv) / dpr cfg,
               z = rnd (6 * i + 2) * perspectiveDepth cfg,
               vx = (rnd (6 * i + 3) - 0.5) * speedMultiplier cfg,
               vy = (rnd (6 * i + 4) - 0.5) * speedMultiplier cfg,
               vz = (rnd (6 * i + 5) - 0.5) * speedMultiplier cfg\<rparr>)
       [0 ..< numNodes cfg]"

text \<open>Construction: size the canvas, create the nodes, draw once; no loop is started.\<close>

definition initialize :: "config \<Rightarrow> canvas \<Rightarrow> (nat \<Rightarrow> real) \<Rightarrow> graph_instance" where
  "initialize cfg cv rnd =
     render cfg
       \<lparr>canvas = cv, nodes = createNodes cfg cv rnd, animationFrameId = None,
        frameRequests = [], lastRequest = 0, painted = [Background], renders = 0\<rparr>"

section \<open>Discovery of the tiles\<close>

text \<open>
  What the scripts read of a tile: the result of
  \<^verbatim>\<open>tile.querySelector('.network-canvas')\<close> (\<open>None\<close> for \<^verbatim>\<open>null\<close>), whether
  \<^verbatim>\<open>getContext('2d')\<close> yields a context, the size the layout gives the canvas, the
  \<^verbatim>\<open>data-title\<close> attribute and the random numbers its construction will draw.
\<close>

record canvas_element =
  context2d :: bool
  layoutSize :: canvas

record tile =
  networkCanvas :: "canvas_element option"
  dataTitle :: string
  randomDraws :: "nat \<Rightarrow> real"

datatype console_entry = CanvasNotFound string | NoCanvasContext string

text \<open>
  \<^verbatim>\<open>initializeTileGraph\<close> of the filter-page script (the tile-graph script has the same
  two guards with another message): what it logs with \<^verbatim>\<open>console.error\<close>, and the
  instance it builds, if any. It has no \<^verbatim>\<open>throw\<close> and dereferences nothing before the
  guards.
\<close>

definition initializeTileGraph :: "config \<Rightarrow> tile \<Rightarrow> console_entry list \<times> graph_instance option" where
  "initializeTileGraph cfg t =
     (case networkCanvas t of
        None \<Rightarrow> ([CanvasNotFound (dataTitle t)], None)
      | Some c \<Rightarrow>
          if \<not> context2d c then ([NoCanvasContext (dataTitle t)], None)
          else ([], Some (initialize cfg (layoutSize c) (randomDraws t))))"

text \<open>\<^verbatim>\<open>initializeVisibleTiles\<close>: one call per tile, in document order.\<close>

definition initializeVisibleTiles :: "config \<Rightarrow> tile list \<Rightarrow> (console_entry list \<times> graph_instance option) list" where
  "initializeVisibleTiles cfg tiles = map (initializeTileGraph cfg) tiles"

text \<open>
  The static-page script has no guard. Its \<^verbatim>\<open>forEach\<close> callback calls
  \<^verbatim>\<open>canvas.getContext('2d')\<close> on the query result and, inside \<^verbatim>\<open>initialize\<close>,
  \<^verbatim>\<open>ctx.createLinearGradient\<close> on the context: on \<^verbatim>\<open>null\<close> either one throws a
  \<^verbatim>\<open>TypeError\<close>.
\<close>

datatype js_error = TypeError

definition staticTileCallback :: "tile \<Rightarrow> js_error + graph_instance" where
  "staticTileCallback t =
     (case networkCanvas t of
        None \<Rightarrow> Inl TypeError
      | Some c \<Rightarrow>
          if \<not> context2d c then Inl TypeError
          else Inr (initialize networkGraphConfig (layoutSize c) (randomDraws t)))"

text \<open>
  The \<^verbatim>\<open>DOMContentLoaded\<close> listener: \<^verbatim>\<open>forEach\<close> over the tiles. An exception leaves
  the loop, so the tiles after it are never visited. The result is the instances built
  and the exception, if one escaped.
\<close>

fun domContentLoaded :: "tile list \<Rightarrow> graph_instance list \<times> js_error option" where
  "domContentLoaded [] = ([], None)"
| "domContentLoaded (t # ts) =
     (case staticTileCallback t of
        Inl e \<Rightarrow> ([], Some e)
      | Inr s \<Rightarrow> (s # fst (domContentLoaded ts), snd (domContentLoaded ts)))"

section \<open>The flat hover-only script\<close>

text \<open>
  The oldest script has no depth axis, no clamp and no static frame: nodes are created
  and drawn only while the pointer is over the tile. Its closure holds the same variable
  \<^verbatim>\<open>animationFrameId\<close>, written both by \<^verbatim>\<open>draw\<close> (a \<^verbatim>\<open>requestAnimationFrame\<close>
  handle) and by the \<^verbatim>\<open>mouseover\<close> listener (a \<^verbatim>\<open>setInterval\<close> handle). Its constants
  are \<^verbatim>\<open>numNodes = 20\<close>, \<^verbatim>\<open>maxDistance = 100\<close>, \<^verbatim>\<open>nodeSize = 3\<close> and
  \<^verbatim>\<open>speedMultiplier = 0.2\<close>.
\<close>

record flat_node =
  fx :: real
  fy :: real
  fvx :: real
  fvy :: real

record flat_instance =
  flatCanvas :: canvas
  flatNodes :: "flat_node list"
  flatAnimationFrameId :: "nat option"
  flatFrameRequests :: "nat list"
  flatIntervals :: "nat list"
  flatLastRequest :: nat
  flatLastTimer :: nat
  flatPainted :: "draw_op list"

definition flatCreateNodes :: "canvas \<Rightarrow> (nat \<Rightarrow> real) \<Rightarrow> flat_node list" where
  "flatCreateNodes cv rnd =
     map (\<lambda>i. \<lparr>fx = rnd (4 * i) * real (width cv),
               fy = rnd (4 * i + 1) * real (height cv),
               fvx = (rnd (4 * i + 2) - 0.5) * 0.2,
               fvy = (rnd (4 * i + 3) - 0.5) * 0.2\<rparr>)
       [0 ..< 20]"

definition flatDistance :: "flat_node \<Rightarrow> flat_node \<Rightarrow> real" where
  "flatDistance a b = sqrt ((fx a - fx b)\<^sup>2 + (fy a - fy b)\<^sup>2)"

definition flatEdge :: "nat \<Rightarrow> flat_node \<Rightarrow> nat \<Rightarrow> flat_node \<Rightarrow> draw_op list" where
  "flatEdge index nd j otherNode =
     (let distance = flatDistance nd otherNode
      in if distance < 100
         then [Edge index j (fx nd) (fy nd) (fx otherNode) (fy otherNode) 1 (1 - distance / 100)]
         else [])"

definition flatOps :: "flat_node list \<Rightarrow> draw_op list" where
  "flatOps ns =
     concat (map (\<lambda>index. Disc index (fx (ns ! index)) (fy (ns ! index)) 3
                    # concat (map (\<lambda>j. flatEdge index (ns ! index) j (ns ! j)) [index + 1 ..< length ns]))
               [0 ..< length ns])"

text \<open>\<^verbatim>\<open>draw\<close>: clear, draw, and request the next frame for \<^verbatim>\<open>draw\<close> itself.\<close>

definition flatDraw :: "flat_instance \<Rightarrow> flat_instance" where
  "flatDraw s =
     (let h = flatLastRequest s + 1
      in s\<lparr>flatPainted := flatOps (flatNodes s),
           flatFrameRequests := flatFrameRequests s @ [h],
           flatLastRequest := h,
           flatAnimationFrameId := Some h\<rparr>)"

definition flatUpdateNode :: "canvas \<Rightarrow> flat_node \<Rightarrow> flat_node" where
  "flatUpdateNode cv n =
     (let n1 = n\<lparr>fx := fx n + fvx n\<rparr>;
          n2 = n1\<lparr>fy := fy n1 + fvy n1\<rparr>;
          n3 = (if fx n2 < 0 \<or> fx n2 > real (width cv) then n2\<lparr>fvx := fvx n2 * (- 1)\<rparr> else n2);
          n4 = (if fy n3 < 0 \<or> fy n3 > real (height cv) then n3\<lparr>fvy := fvy n3 * (- 1)\<rparr> else n3)
      in n4)"

definition flatAnimate :: "flat_instance \<Rightarrow> flat_instance" where
  "flatAnimate s =
     (let s1 = flatDraw s
      in s1\<lparr>flatNodes := map (flatUpdateNode (flatCanvas s1)) (flatNodes s1)\<rparr>)"

text \<open>The \<^verbatim>\<open>mouseover\<close> listener: no test of the handle, a new interval timer each time.\<close>

definition flatMouseover :: "canvas \<Rightarrow> (nat \<Rightarrow> real) \<Rightarrow> flat_instance \<Rightarrow> flat_instance" where
  "flatMouseover cv rnd s =
     (let s1 = s\<lparr>flatCanvas := cv, flatPainted := []\<rparr>;
          s2 = s1\<lparr>flatNodes := flatCreateNodes (flatCanvas s1) rnd\<rparr>;
          s3 = flatDraw s2;
          t = flatLastTimer s3 + 1
      in s3\<lparr>flatIntervals := flatIntervals s3 @ [t], flatLastTimer := t,
            flatAnimationFrameId := Some t\<rparr>)"

text \<open>The \<^verbatim>\<open>mouseleave\<close> listener: \<^verbatim>\<open>clearInterval\<close> on whatever the variable holds,
  then \<^verbatim>\<open>clearRect\<close>. The variable is not reset and nothing is drawn.\<close>

definition clearInterval :: "nat option \<Rightarrow> flat_instance \<Rightarrow> flat_instance" where
  "clearInterval v s =
     (case v of None \<Rightarrow> s | Some h \<Rightarrow> s\<lparr>flatIntervals := removeAll h (flatIntervals s)\<rparr>)"

definition flatMouseleave :: "flat_instance \<Rightarrow> flat_instance" where
  "flatMouseleave s = (clearInterval (flatAnimationFrameId s) s)\<lparr>flatPainted := []\<rparr>"

text \<open>The browser runs the pending animation-frame callbacks (each is \<^verbatim>\<open>draw\<close>), and
  the browser lets every running interval timer fire once (each runs \<^verbatim>\<open>animate\<close>).\<close>

definition flatAnimationFrame :: "flat_instance \<Rightarrow> flat_instance" where
  "flatAnimationFrame s =
     fold (\<lambda>h. flatDraw) (flatFrameRequests s) (s\<lparr>flatFrameRequests := []\<rparr>)"

definition flatTimers :: "flat_instance \<Rightarrow> flat_instance" where
  "flatTimers s = fold (\<lambda>h. flatAnimate) (flatIntervals s) s"

text \<open>The state of a tile of this script after the page has loaded: nothing created,
  nothing drawn, nothing scheduled.\<close>

definition flatLoaded :: "canvas \<Rightarrow> flat_instance" where
  "flatLoaded cv =
     \<lparr>flatCanvas = cv, flatNodes = [], flatAnimationFrameId = None, flatFrameRequests = [],
      flatIntervals = [], flatLastRequest = 0, flatLastTimer = 0, flatPainted = []\<rparr>"

section \<open>Vocabulary of the properties\<close>

text \<open>A node lies within the bounds of the surface on all three axes.\<close>

definition inBounds :: "config \<Rightarrow> canvas \<Rightarrow> node \<Rightarrow> bool" where
  "inBounds cfg cv n \<longleftrightarrow>
     0 \<le> x n \<and> x n \<le> boundW cfg cv \<and> 0 \<le> y n \<and> y n \<le> boundH cfg cv \<and>
     0 \<le> z n \<and> z n \<le> perspectiveDepth cfg"

text \<open>What one run of \<^verbatim>\<open>animate\<close> does to the node array (render, then tick), and what
  it does to a single node.\<close>

definition frameStep :: "config \<Rightarrow> canvas \<Rightarrow> node list \<Rightarrow> node list" where
  "frameStep cfg cv ns = updateNodes cfg cv (fst (drawNodesAndEdges cfg cv ns))"

definition nodeFrame :: "config \<Rightarrow> canvas \<Rightarrow> node \<Rightarrow> node" where
  "nodeFrame cfg cv n = updateNode cfg cv (clampNode cfg cv n)"

text \<open>The node array after the first \<open>k\<close> calls of the render callback, and the trace
  entries the call for index \<open>i\<close> contributes.\<close>

definition clampedNodes :: "config \<Rightarrow> canvas \<Rightarrow> nat \<Rightarrow> node list \<Rightarrow> node list" where
  "clampedNodes cfg cv k ns = map (clampNode cfg cv) (take k ns) @ drop k ns"

definition opsAt :: "config \<Rightarrow> canvas \<Rightarrow> node list \<Rightarrow> nat \<Rightarrow> draw_op list" where
  "opsAt cfg cv ns i =
     Disc i (x (clampNode cfg cv (ns ! i))) (y (clampNode cfg cv (ns ! i)))
       (getNodeSize cfg (z (clampNode cfg cv (ns ! i))))
     # concat (map (\<lambda>j. drawEdge cfg i (clampNode cfg cv (ns ! i)) j (ns ! j)) [i + 1 ..< length ns])"

text \<open>The index pairs \<open>(index, j)\<close> the two nested loops of a render pass run through, in
  order, for an array of \<open>n\<close> nodes.\<close>

definition visitedPairs :: "nat \<Rightarrow> (nat \<times> nat) list" where
  "visitedPairs n = concat (map (\<lambda>i. map (\<lambda>j. (i, j)) [i + 1 ..< n]) [0 ..< n])"

text \<open>The index pairs of the edges in a trace, and the undirected relation they draw.\<close>

fun edgePair :: "draw_op \<Rightarrow> (nat \<times> nat) list" where
  "edgePair (Edge i j x1 y1 x2 y2 w a) = [(i, j)]"
| "edgePair _ = []"

definition edgePairs :: "draw_op list \<Rightarrow> (nat \<times> nat) list" where
  "edgePairs ops = concat (map edgePair ops)"

definition adjacent :: "draw_op list \<Rightarrow> nat \<Rightarrow> nat \<Rightarrow> bool" where
  "adjacent ops a b \<longleftrightarrow> (a, b) \<in> set (edgePairs ops) \<or> (b, a) \<in> set (edgePairs ops)"

text \<open>The test the render pass applies to the pair \<open>(i, j)\<close> with \<open>i < j\<close>: node \<open>i\<close> has
  been clamped by then, node \<open>j\<close> is read as stored.\<close>

definition closeEnough :: "config \<Rightarrow> canvas \<Rightarrow> node list \<Rightarrow> nat \<times> nat \<Rightarrow> bool" where
  "closeEnough cfg cv ns p \<longleftrightarrow>
     distance3 (clampNode cfg cv (ns ! fst p)) (ns ! snd p) < maxDistance cfg"

text \<open>The handle variable and the browser's pending callbacks agree: idle with nothing
  pending, or running with exactly the recorded handle pending.\<close>

definition singleLoop :: "graph_instance \<Rightarrow> bool" where
  "singleLoop s \<longleftrightarrow>
     (case animationFrameId s of
        None \<Rightarrow> frameRequests s = []
      | Some h \<Rightarrow> h \<noteq> 0 \<and> frameRequests s = [h])"

section \<open>Properties of the simulator\<close>

lemma updateNode_x: "x (updateNode cfg cv n) = x n + vx n"
  by (simp add: updateNode_def Let_def)

lemma updateNode_y: "y (updateNode cfg cv n) = y n + vy n"
  by (simp add: updateNode_def Let_def)

lemma updateNode_z: "z (updateNode cfg cv n) = z n + vz n"
  by (simp add: updateNode_def Let_def)

lemma updateNode_vx:
  "vx (updateNode cfg cv n) = (if x n + vx n < 0 \<or> x n + vx n > boundW cfg cv then - vx n else vx n)"
  by (simp add: updateNode_def Let_def)

lemma updateNode_vy:
  "vy (updateNode cfg cv n) = (if y n + vy n < 0 \<or> y n + vy n > boundH cfg cv then - vy n else vy n)"
  by (simp add: updateNode_def Let_def)

lemma updateNode_vz:
  "vz (updateNode cfg cv n) =
     (if z n + vz n < 0 \<or> z n + vz n > perspectiveDepth cfg then - vz n else vz n)"
  by (simp add: updateNode_def Let_def)

lemmas updateNode_sel = updateNode_x updateNode_y updateNode_z updateNode_vx updateNode_vy updateNode_vz

lemma boundW_nonneg: "0 < dpr cfg \<Longrightarrow> 0 \<le> boundW cfg cv"
  by (simp add: boundW_def)
lemma boundH_nonneg: "0 < dpr cfg \<Longrightarrow> 0 \<le> boundH cfg cv"
  by (simp add: boundH_def)

lemma networkGraph_bounds:
  "boundW networkGraphConfig \<lparr>width = 300, height = 200\<rparr> = 300"
  "boundH networkGraphConfig \<lparr>width = 300, height = 200\<rparr> = 200"
  "perspectiveDepth networkGraphConfig = 100" "dpr networkGraphConfig = 1"
  by (simp_all add: boundW_def boundH_def networkGraphConfig_def)


lemma networkGraph_constants:
  "maxDistance networkGraphConfig = 150" "baseNodeSize networkGraphConfig = 10"
  "minNodeSize networkGraphConfig = 10" "basePathWidth networkGraphConfig = 7"
  "edgeAlpha networkGraphConfig = 3/10" "numNodes networkGraphConfig = 17"
  by (simp_all add: networkGraphConfig_def)

text \<open>
  Claim C1. One tick of \<^verbatim>\<open>updateNodes\<close> keeps the number of nodes and, for every node,
  adds the velocity to the position on each of the three axes, with no clamping; each
  velocity component is multiplied by \<open>-1\<close> exactly when the coordinate just written on
  its own axis lies outside its bounds (\<open>x\<close> against the width, \<open>y\<close> against the height,
  \<open>z\<close> against the perspective depth), and is left as it was otherwise.
\<close>

theorem updateNodes_tick:
  assumes "i < length ns"
  shows "length (updateNodes cfg cv ns) = length ns
    \<and> x (updateNodes cfg cv ns ! i) = x (ns ! i) + vx (ns ! i)
    \<and> y (updateNodes cfg cv ns ! i) = y (ns ! i) + vy (ns ! i)
    \<and> z (updateNodes cfg cv ns ! i) = z (ns ! i) + vz (ns ! i)
    \<and> vx (updateNodes cfg cv ns ! i) =
        (if x (updateNodes cfg cv ns ! i) < 0 \<or> x (updateNodes cfg cv ns ! i) > boundW cfg cv
         then - vx (ns ! i) else vx (ns ! i))
    \<and> vy (updateNodes cfg cv ns ! i) =
        (if y (updateNodes cfg cv ns ! i) < 0 \<or> y (updateNodes cfg cv ns ! i) > boundH cfg cv
         then - vy (ns ! i) else vy (ns ! i))
    \<and> vz (updateNodes cfg cv ns ! i) =
        (if z (updateNodes cfg cv ns ! i) < 0 \<or> z (updateNodes cfg cv ns ! i) > perspectiveDepth cfg
         then - vz (ns ! i) else vz (ns ! i))"
  using assms
  by (simp add: updateNodes_def updateNode_x updateNode_y updateNode_z
      updateNode_vx updateNode_vy updateNode_vz)

theorem updateNodes_tick_witness:
  "0 < length [\<lparr>x = 1/10, y = 5, z = 9995/100, vx = - (4/10), vy = 1/10, vz = 1/10\<rparr>]
   \<and> x (updateNodes networkGraphConfig \<lparr>width = 300, height = 200\<rparr>
        [\<lparr>x = 1/10, y = 5, z = 9995/100, vx = - (4/10), vy = 1/10, vz = 1/10\<rparr>] ! 0) = - (3/10)
   \<and> vx (updateNodes networkGraphConfig \<lparr>width = 300, height = 200\<rparr>
        [\<lparr>x = 1/10, y = 5, z = 9995/100, vx = - (4/10), vy = 1/10, vz = 1/10\<rparr>] ! 0) = 4/10
   \<and> vy (updateNodes networkGraphConfig \<lparr>width = 300, height = 200\<rparr>
        [\<lparr>x = 1/10, y = 5, z = 9995/100, vx = - (4/10), vy = 1/10, vz = 1/10\<rparr>] ! 0) = 1/10
   \<and> vz (updateNodes networkGraphConfig \<lparr>width = 300, height = 200\<rparr>
        [\<lparr>x = 1/10, y = 5, z = 9995/100, vx = - (4/10), vy = 1/10, vz = 1/10\<rparr>] ! 0) = - (1/10)"
  using updateNodes_tick [of 0 "[\<lparr>x = 1/10, y = 5, z = 9995/100, vx = - (4/10), vy = 1/10, vz = 1/10\<rparr>]"
      networkGraphConfig "\<lparr>width = 300, height = 200\<rparr>"]
  by (simp add: networkGraph_bounds)



lemma variant_constants:
  "minNodeSize networkGraphConfig \<le> baseNodeSize networkGraphConfig \<and> 0 < perspectiveDepth networkGraphConfig"
  "minNodeSize (filterPageConfig r) \<le> baseNodeSize (filterPageConfig r) \<and> 0 < perspectiveDepth (filterPageConfig r)"
  "0 < r \<Longrightarrow> 0 < h \<Longrightarrow>
     minNodeSize (tileGraphConfig r h) \<le> baseNodeSize (tileGraphConfig r h) \<and> 0 < perspectiveDepth (tileGraphConfig r h)"
  by (simp_all add: networkGraphConfig_def filterPageConfig_def tileGraphConfig_def)

text \<open>
  Claim C5. With a minimum size not above the base size and a positive perspective depth,
  which is the case for the constants of each of the three scripts, \<^verbatim>\<open>getNodeSize\<close>
  is monotonically non-decreasing on \<open>[0, perspectiveDepth]\<close>, equals the minimum size
  at depth \<open>0\<close> and equals the base size at the perspective depth.
\<close>

theorem getNodeSize_monotone:
  assumes "minNodeSize cfg \<le> baseNodeSize cfg" and "0 < perspectiveDepth cfg"
    and "0 \<le> z1" and "z1 \<le> z2" and "z2 \<le> perspectiveDepth cfg"
  shows "getNodeSize cfg z1 \<le> getNodeSize cfg z2
    \<and> getNodeSize cfg 0 = minNodeSize cfg
    \<and> getNodeSize cfg (perspectiveDepth cfg) = baseNodeSize cfg"
proof -
  have "z1 / perspectiveDepth cfg \<le> z2 / perspectiveDepth cfg"
    using assms(2,4) by (simp add: divide_right_mono)
  then have "(baseNodeSize cfg - minNodeSize cfg) * (z1 / perspectiveDepth cfg)
      \<le> (baseNodeSize cfg - minNodeSize cfg) * (z2 / perspectiveDepth cfg)"
    using assms(1) by (intro mult_left_mono) simp_all
  then show ?thesis
    using assms(2) by (simp add: getNodeSize_def)
qed

theorem getNodeSize_monotone_witness:
  "(getNodeSize networkGraphConfig 25 \<le> getNodeSize networkGraphConfig 75
      \<and> getNodeSize networkGraphConfig 0 = 10 \<and> getNodeSize networkGraphConfig 100 = 10)
   \<and> (getNodeSize (filterPageConfig 2) 25 = 7 \<and> getNodeSize (filterPageConfig 2) 75 = 9
      \<and> getNodeSize (filterPageConfig 2) 25 \<le> getNodeSize (filterPageConfig 2) 75
      \<and> getNodeSize (filterPageConfig 2) 0 = 6 \<and> getNodeSize (filterPageConfig 2) 100 = 10)
   \<and> (getNodeSize (tileGraphConfig 2 300) 50 \<le> getNodeSize (tileGraphConfig 2 300) 100
      \<and> getNodeSize (tileGraphConfig 2 300) 0 = 5 \<and> getNodeSize (tileGraphConfig 2 300) 150 = 8)"
  using getNodeSize_monotone [of networkGraphConfig 25 75]
    getNodeSize_monotone [of "filterPageConfig 2" 25 75]
    getNodeSize_monotone [of "tileGraphConfig 2 300" 50 100]
  by (simp add: networkGraphConfig_def filterPageConfig_def tileGraphConfig_def getNodeSize_def)

section \<open>Properties of the renderer and of the frame step\<close>

lemma clampedNodes_length: "length (clampedNodes cfg cv k ns) = length ns"
  by (simp add: clampedNodes_def)

lemma clampedNodes_nth:
  "i < length ns \<Longrightarrow>
   clampedNodes cfg cv k ns ! i = (if i < k then clampNode cfg cv (ns ! i) else ns ! i)"
  by (auto simp: clampedNodes_def nth_append min_def)

lemma clampedNodes_Suc:
  assumes "k < length ns"
  shows "(clampedNodes cfg cv k ns)[k := clampNode cfg cv (ns ! k)] = clampedNodes cfg cv (Suc k) ns"
proof (rule nth_equalityI)
  show "length ((clampedNodes cfg cv k ns)[k := clampNode cfg cv (ns ! k)]) = length (clampedNodes cfg cv (Suc k) ns)"
    by (simp add: clampedNodes_length)
next
  fix i assume "i < length ((clampedNodes cfg cv k ns)[k := clampNode cfg cv (ns ! k)])"
  then have i: "i < length ns" by (simp add: clampedNodes_length)
  show "(clampedNodes cfg cv k ns)[k := clampNode cfg cv (ns ! k)] ! i = clampedNodes cfg cv (Suc k) ns ! i"
    using i assms by (auto simp: clampedNodes_nth clampedNodes_length nth_list_update)
qed

lemma edgesFrom_clamped:
  assumes "k < length ns"
  shows "edgesFrom cfg (clampedNodes cfg cv (Suc k) ns) k =
         concat (map (\<lambda>j. drawEdge cfg k (clampNode cfg cv (ns ! k)) j (ns ! j)) [k + 1 ..< length ns])"
  unfolding edgesFrom_def clampedNodes_length
  by (rule arg_cong [where f = concat]) (use assms in \<open>auto simp: clampedNodes_nth\<close>)

lemma drawStep_clamped:
  assumes "k < length ns"
  shows "drawStep cfg cv k (clampedNodes cfg cv k ns, ops) =
         (clampedNodes cfg cv (Suc k) ns, ops @ opsAt cfg cv ns k)"
  using assms
  by (simp add: drawStep_def Let_def clampedNodes_nth clampedNodes_Suc edgesFrom_clamped opsAt_def)

lemma fold_drawStep:
  "k \<le> length ns \<Longrightarrow>
   fold (drawStep cfg cv) [0 ..< k] (ns, ops) =
     (clampedNodes cfg cv k ns, ops @ concat (map (opsAt cfg cv ns) [0 ..< k]))"
proof (induction k)
  case 0
  then show ?case by (simp add: clampedNodes_def)
next
  case (Suc k)
  then show ?case by (simp add: drawStep_clamped)
qed

lemma drawNodesAndEdges_eq:
  "drawNodesAndEdges cfg cv ns =
     (map (clampNode cfg cv) ns, Background # concat (map (opsAt cfg cv ns) [0 ..< length ns]))"
  by (simp add: drawNodesAndEdges_def fold_drawStep clampedNodes_def)

lemma clampNode_x: "x (clampNode cfg cv n) = max 0 (min (boundW cfg cv) (x n))"
  by (simp add: clampNode_def Let_def)
lemma clampNode_y: "y (clampNode cfg cv n) = max 0 (min (boundH cfg cv) (y n))"
  by (simp add: clampNode_def Let_def)
lemma clampNode_z: "z (clampNode cfg cv n) = max 0 (min (perspectiveDepth cfg) (z n))"
  by (simp add: clampNode_def Let_def)
lemma clampNode_vx: "vx (clampNode cfg cv n) = vx n"
  by (simp add: clampNode_def Let_def)
lemma clampNode_vy: "vy (clampNode cfg cv n) = vy n"
  by (simp add: clampNode_def Let_def)
lemma clampNode_vz: "vz (clampNode cfg cv n) = vz n"
  by (simp add: clampNode_def Let_def)

lemmas clampNode_sel = clampNode_x clampNode_y clampNode_z clampNode_vx clampNode_vy clampNode_vz

lemma clampNode_inBounds:
  assumes "0 < dpr cfg" "0 \<le> perspectiveDepth cfg"
  shows "inBounds cfg cv (clampNode cfg cv n)"
  using boundW_nonneg [OF assms(1), of cv] boundH_nonneg [OF assms(1), of cv] assms(2)
  by (simp add: inBounds_def clampNode_sel)

text \<open>One axis of one frame: clamp into \<open>[0, b]\<close>, add the velocity, reflect.\<close>

lemma axis_inward:
  fixes b c v :: real
  assumes "0 \<le> b"
  defines "c' \<equiv> max 0 (min b c) + v"
  defines "v' \<equiv> (if c' < 0 \<or> c' > b then - v else v)"
  shows "(c' < 0 \<longrightarrow> 0 < v') \<and> (b < c' \<longrightarrow> v' < 0)"
  using assms by (auto simp: max_def min_def split: if_splits)

lemma axis_restored:
  fixes b c v :: real
  assumes "0 \<le> b" "\<bar>v\<bar> \<le> b"
  defines "c' \<equiv> max 0 (min b c) + v"
  defines "v' \<equiv> (if c' < 0 \<or> c' > b then - v else v)"
  assumes "\<not> (0 \<le> c' \<and> c' \<le> b)"
  shows "0 \<le> max 0 (min b c') + v' \<and> max 0 (min b c') + v' \<le> b"
  using assms by (auto simp: max_def min_def split: if_splits)

lemma nodeFrame_x: "x (nodeFrame cfg cv n) = max 0 (min (boundW cfg cv) (x n)) + vx n"
  by (simp add: nodeFrame_def updateNode_sel clampNode_sel)
lemma nodeFrame_y: "y (nodeFrame cfg cv n) = max 0 (min (boundH cfg cv) (y n)) + vy n"
  by (simp add: nodeFrame_def updateNode_sel clampNode_sel)
lemma nodeFrame_z: "z (nodeFrame cfg cv n) = max 0 (min (perspectiveDepth cfg) (z n)) + vz n"
  by (simp add: nodeFrame_def updateNode_sel clampNode_sel)
lemma nodeFrame_vx:
  "vx (nodeFrame cfg cv n) =
     (if max 0 (min (boundW cfg cv) (x n)) + vx n < 0 \<or> max 0 (min (boundW cfg cv) (x n)) + vx n > boundW cfg cv
      then - vx n else vx n)"
  by (simp add: nodeFrame_def updateNode_sel clampNode_sel)
lemma nodeFrame_vy:
  "vy (nodeFrame cfg cv n) =
     (if max 0 (min (boundH cfg cv) (y n)) + vy n < 0 \<or> max 0 (min (boundH cfg cv) (y n)) + vy n > boundH cfg cv
      then - vy n else vy n)"
  by (simp add: nodeFrame_def updateNode_sel clampNode_sel)
lemma nodeFrame_vz:
  "vz (nodeFrame cfg cv n) =
     (if max 0 (min (perspectiveDepth cfg) (z n)) + vz n < 0
         \<or> max 0 (min (perspectiveDepth cfg) (z n)) + vz n > perspectiveDepth cfg
      then - vz n else vz n)"
  by (simp add: nodeFrame_def updateNode_sel clampNode_sel)

lemmas nodeFrame_sel = nodeFrame_x nodeFrame_y nodeFrame_z nodeFrame_vx nodeFrame_vy nodeFrame_vz

lemma nodeFrame_speed:
  "\<bar>vx (nodeFrame cfg cv n)\<bar> = \<bar>vx n\<bar> \<and> \<bar>vy (nodeFrame cfg cv n)\<bar> = \<bar>vy n\<bar> \<and>
   \<bar>vz (nodeFrame cfg cv n)\<bar> = \<bar>vz n\<bar>"
  by (simp add: nodeFrame_sel)

lemma nodeFrame_pow_speed:
  "\<bar>vx ((nodeFrame cfg cv ^^ k) n)\<bar> = \<bar>vx n\<bar> \<and> \<bar>vy ((nodeFrame cfg cv ^^ k) n)\<bar> = \<bar>vy n\<bar> \<and>
   \<bar>vz ((nodeFrame cfg cv ^^ k) n)\<bar> = \<bar>vz n\<bar>"
  by (induction k) (simp_all add: nodeFrame_speed)

lemma frameStep_length: "length (frameStep cfg cv ns) = length ns"
  by (simp add: frameStep_def updateNodes_def drawNodesAndEdges_eq)

lemma frameStep_nth: "i < length ns \<Longrightarrow> frameStep cfg cv ns ! i = nodeFrame cfg cv (ns ! i)"
  by (simp add: frameStep_def updateNodes_def drawNodesAndEdges_eq nodeFrame_def)

lemma frames_length: "length ((frameStep cfg cv ^^ k) ns) = length ns"
  by (induction k) (simp_all add: frameStep_length)

lemma frames_nth:
  "i < length ns \<Longrightarrow> (frameStep cfg cv ^^ k) ns ! i = (nodeFrame cfg cv ^^ k) (ns ! i)"
  by (induction k) (simp_all add: frameStep_nth frames_length)

lemma nodeFrame_inward:
  assumes "0 < dpr cfg" "0 \<le> perspectiveDepth cfg"
  shows "(x (nodeFrame cfg cv n) < 0 \<longrightarrow> 0 < vx (nodeFrame cfg cv n))
     \<and> (boundW cfg cv < x (nodeFrame cfg cv n) \<longrightarrow> vx (nodeFrame cfg cv n) < 0)
     \<and> (y (nodeFrame cfg cv n) < 0 \<longrightarrow> 0 < vy (nodeFrame cfg cv n))
     \<and> (boundH cfg cv < y (nodeFrame cfg cv n) \<longrightarrow> vy (nodeFrame cfg cv n) < 0)
     \<and> (z (nodeFrame cfg cv n) < 0 \<longrightarrow> 0 < vz (nodeFrame cfg cv n))
     \<and> (perspectiveDepth cfg < z (nodeFrame cfg cv n) \<longrightarrow> vz (nodeFrame cfg cv n) < 0)"
  using axis_inward [OF boundW_nonneg [OF assms(1), of cv], of "x n" "vx n"]
    axis_inward [OF boundH_nonneg [OF assms(1), of cv], of "y n" "vy n"]
    axis_inward [OF assms(2), of "z n" "vz n"]
  unfolding nodeFrame_sel by blast

lemma nodeFrame_restored_x:
  assumes "0 < dpr cfg" "\<bar>vx n\<bar> \<le> boundW cfg cv"
    and "\<not> (0 \<le> x (nodeFrame cfg cv n) \<and> x (nodeFrame cfg cv n) \<le> boundW cfg cv)"
  shows "0 \<le> x (nodeFrame cfg cv (nodeFrame cfg cv n)) \<and> x (nodeFrame cfg cv (nodeFrame cfg cv n)) \<le> boundW cfg cv"
  using axis_restored [OF boundW_nonneg [OF assms(1), of cv] assms(2), of "x n"] assms(3)
  unfolding nodeFrame_sel by blast

lemma nodeFrame_restored_y:
  assumes "0 < dpr cfg" "\<bar>vy n\<bar> \<le> boundH cfg cv"
    and "\<not> (0 \<le> y (nodeFrame cfg cv n) \<and> y (nodeFrame cfg cv n) \<le> boundH cfg cv)"
  shows "0 \<le> y (nodeFrame cfg cv (nodeFrame cfg cv n)) \<and> y (nodeFrame cfg cv (nodeFrame cfg cv n)) \<le> boundH cfg cv"
  using axis_restored [OF boundH_nonneg [OF assms(1), of cv] assms(2), of "y n"] assms(3)
  unfolding nodeFrame_sel by blast

lemma nodeFrame_restored_z:
  assumes "0 \<le> perspectiveDepth cfg" "\<bar>vz n\<bar> \<le> perspectiveDepth cfg"
    and "\<not> (0 \<le> z (nodeFrame cfg cv n) \<and> z (nodeFrame cfg cv n) \<le> perspectiveDepth cfg)"
  shows "0 \<le> z (nodeFrame cfg cv (nodeFrame cfg cv n)) \<and> z (nodeFrame cfg cv (nodeFrame cfg cv n)) \<le> perspectiveDepth cfg"
  using axis_restored [OF assms(1) assms(2), of "z n"] assms(3)
  unfolding nodeFrame_sel by blast


lemma render_nodes: "fst (drawNodesAndEdges cfg cv ns) = map (clampNode cfg cv) ns"
  by (simp add: drawNodesAndEdges_eq)

lemma frames_Suc_nth:
  "i < length ns \<Longrightarrow> (frameStep cfg cv ^^ Suc k) ns ! i = nodeFrame cfg cv ((frameStep cfg cv ^^ k) ns ! i)"
  by (simp add: frameStep_nth frames_length)

text \<open>
  Claim C2. Under the repeating frame step (a render with its clamp, then a tick), from
  any node array and after any number \<open>k\<close> of frames: the render of the next frame
  stores every node inside the closed bounds on all three axes, so no node stays outside;
  a coordinate that the tick of this frame has taken outside its bounds has had its
  velocity turned back towards the interval; and the tick of the following frame
  leaves such a coordinate inside the closed interval whenever the speed on that axis
  does not exceed the extent of the interval. The surface has a positive pixel ratio and
  a non-negative depth.
\<close>

theorem frame_restores_bounds:
  fixes cfg :: config and cv :: canvas and ns :: "node list" and k i :: nat
  defines "s1 \<equiv> (frameStep cfg cv ^^ (k + 1)) ns ! i"
    and "s2 \<equiv> (frameStep cfg cv ^^ (k + 2)) ns ! i"
  assumes "0 < dpr cfg" and "0 \<le> perspectiveDepth cfg" and "i < length ns"
  shows "inBounds cfg cv (fst (drawNodesAndEdges cfg cv ((frameStep cfg cv ^^ k) ns)) ! i)
    \<and> (x s1 < 0 \<longrightarrow> 0 < vx s1) \<and> (boundW cfg cv < x s1 \<longrightarrow> vx s1 < 0)
    \<and> (y s1 < 0 \<longrightarrow> 0 < vy s1) \<and> (boundH cfg cv < y s1 \<longrightarrow> vy s1 < 0)
    \<and> (z s1 < 0 \<longrightarrow> 0 < vz s1) \<and> (perspectiveDepth cfg < z s1 \<longrightarrow> vz s1 < 0)
    \<and> (\<bar>vx (ns ! i)\<bar> \<le> boundW cfg cv \<and> \<not> (0 \<le> x s1 \<and> x s1 \<le> boundW cfg cv)
          \<longrightarrow> 0 \<le> x s2 \<and> x s2 \<le> boundW cfg cv)
    \<and> (\<bar>vy (ns ! i)\<bar> \<le> boundH cfg cv \<and> \<not> (0 \<le> y s1 \<and> y s1 \<le> boundH cfg cv)
          \<longrightarrow> 0 \<le> y s2 \<and> y s2 \<le> boundH cfg cv)
    \<and> (\<bar>vz (ns ! i)\<bar> \<le> perspectiveDepth cfg \<and> \<not> (0 \<le> z s1 \<and> z s1 \<le> perspectiveDepth cfg)
          \<longrightarrow> 0 \<le> z s2 \<and> z s2 \<le> perspectiveDepth cfg)"
proof -
  define s0 where "s0 = (frameStep cfg cv ^^ k) ns ! i"
  have s1: "s1 = nodeFrame cfg cv s0"
    using assms(5) by (simp add: s1_def s0_def frameStep_nth frames_length)
  have s2: "s2 = nodeFrame cfg cv (nodeFrame cfg cv s0)"
    using assms(5) by (simp add: s2_def s0_def frameStep_nth frames_length frameStep_length)
  have s0: "s0 = (nodeFrame cfg cv ^^ k) (ns ! i)"
    using assms(5) by (simp add: s0_def frames_nth)
  have speed: "\<bar>vx s0\<bar> = \<bar>vx (ns ! i)\<bar>" "\<bar>vy s0\<bar> = \<bar>vy (ns ! i)\<bar>" "\<bar>vz s0\<bar> = \<bar>vz (ns ! i)\<bar>"
    using nodeFrame_pow_speed [where cfg = cfg and cv = cv and k = k and n = "ns ! i"] by (simp_all add: s0)
  have drawn: "inBounds cfg cv (fst (drawNodesAndEdges cfg cv ((frameStep cfg cv ^^ k) ns)) ! i)"
    using assms(5) clampNode_inBounds [OF assms(3) assms(4)]
    by (simp add: render_nodes frames_length)
  have inward: "(x s1 < 0 \<longrightarrow> 0 < vx s1) \<and> (boundW cfg cv < x s1 \<longrightarrow> vx s1 < 0)
    \<and> (y s1 < 0 \<longrightarrow> 0 < vy s1) \<and> (boundH cfg cv < y s1 \<longrightarrow> vy s1 < 0)
    \<and> (z s1 < 0 \<longrightarrow> 0 < vz s1) \<and> (perspectiveDepth cfg < z s1 \<longrightarrow> vz s1 < 0)"
    unfolding s1 by (rule nodeFrame_inward [OF assms(3) assms(4)])
  have rx: "\<bar>vx (ns ! i)\<bar> \<le> boundW cfg cv \<and> \<not> (0 \<le> x s1 \<and> x s1 \<le> boundW cfg cv)
          \<longrightarrow> 0 \<le> x s2 \<and> x s2 \<le> boundW cfg cv"
    unfolding s1 s2 using nodeFrame_restored_x [OF assms(3), where n = s0 and cv = cv] speed(1) by auto
  have ry: "\<bar>vy (ns ! i)\<bar> \<le> boundH cfg cv \<and> \<not> (0 \<le> y s1 \<and> y s1 \<le> boundH cfg cv)
          \<longrightarrow> 0 \<le> y s2 \<and> y s2 \<le> boundH cfg cv"
    unfolding s1 s2 using nodeFrame_restored_y [OF assms(3), where n = s0 and cv = cv] speed(2) by auto
  have rz: "\<bar>vz (ns ! i)\<bar> \<le> perspectiveDepth cfg \<and> \<not> (0 \<le> z s1 \<and> z s1 \<le> perspectiveDepth cfg)
          \<longrightarrow> 0 \<le> z s2 \<and> z s2 \<le> perspectiveDepth cfg"
    unfolding s1 s2 using nodeFrame_restored_z [OF assms(4), where n = s0 and cv = cv] speed(3) by auto
  from drawn inward rx ry rz show ?thesis by blast
qed


theorem frame_restores_bounds_witness:
  "0 < dpr networkGraphConfig \<and> 0 \<le> perspectiveDepth networkGraphConfig
   \<and> 0 < length [\<lparr>x = 1/10, y = 5, z = 50, vx = - (4/10), vy = 0, vz = 0\<rparr>]
   \<and> \<bar>vx \<lparr>x = 1/10, y = 5, z = 50, vx = - (4/10), vy = 0, vz = 0\<rparr>\<bar>
        \<le> boundW networkGraphConfig \<lparr>width = 300, height = 200\<rparr>
   \<and> x ((frameStep networkGraphConfig \<lparr>width = 300, height = 200\<rparr> ^^ 1)
          [\<lparr>x = 1/10, y = 5, z = 50, vx = - (4/10), vy = 0, vz = 0\<rparr>] ! 0) < 0
   \<and> 0 < vx ((frameStep networkGraphConfig \<lparr>width = 300, height = 200\<rparr> ^^ 1)
          [\<lparr>x = 1/10, y = 5, z = 50, vx = - (4/10), vy = 0, vz = 0\<rparr>] ! 0)
   \<and> 0 \<le> x ((frameStep networkGraphConfig \<lparr>width = 300, height = 200\<rparr> ^^ 2)
          [\<lparr>x = 1/10, y = 5, z = 50, vx = - (4/10), vy = 0, vz = 0\<rparr>] ! 0)
   \<and> x ((frameStep networkGraphConfig \<lparr>width = 300, height = 200\<rparr> ^^ 2)
          [\<lparr>x = 1/10, y = 5, z = 50, vx = - (4/10), vy = 0, vz = 0\<rparr>] ! 0)
        \<le> boundW networkGraphConfig \<lparr>width = 300, height = 200\<rparr>
   \<and> inBounds networkGraphConfig \<lparr>width = 300, height = 200\<rparr>
        (fst (drawNodesAndEdges networkGraphConfig \<lparr>width = 300, height = 200\<rparr>
          [\<lparr>x = 1/10, y = 5, z = 50, vx = - (4/10), vy = 0, vz = 0\<rparr>]) ! 0)"
  using frame_restores_bounds [of networkGraphConfig 0
      "[\<lparr>x = 1/10, y = 5, z = 50, vx = - (4/10), vy = 0, vz = 0\<rparr>]"
      "\<lparr>width = 300, height = 200\<rparr>" 0]
  by (simp add: networkGraph_bounds numeral_2_eq_2 frameStep_nth frameStep_length nodeFrame_sel)


text \<open>
  The bound on the speed in the last part cannot be dropped. On a canvas of width \<open>0\<close>
  every render stores the coordinate at \<open>0\<close> and every tick takes it outside again.
\<close>

lemma empty_canvas_frames:
  "x (fst (drawNodesAndEdges networkGraphConfig \<lparr>width = 0, height = 200\<rparr>
        [\<lparr>x = 0, y = 5, z = 50, vx = 1/20, vy = 0, vz = 0\<rparr>]) ! 0) = 0
   \<and> x (frameStep networkGraphConfig \<lparr>width = 0, height = 200\<rparr>
        [\<lparr>x = 0, y = 5, z = 50, vx = 1/20, vy = 0, vz = 0\<rparr>] ! 0) = 1/20
   \<and> x (frameStep networkGraphConfig \<lparr>width = 0, height = 200\<rparr>
        (frameStep networkGraphConfig \<lparr>width = 0, height = 200\<rparr>
          [\<lparr>x = 0, y = 5, z = 50, vx = 1/20, vy = 0, vz = 0\<rparr>]) ! 0) = - (1/20)
   \<and> x (fst (drawNodesAndEdges networkGraphConfig \<lparr>width = 0, height = 200\<rparr>
        (frameStep networkGraphConfig \<lparr>width = 0, height = 200\<rparr>
          [\<lparr>x = 0, y = 5, z = 50, vx = 1/20, vy = 0, vz = 0\<rparr>])) ! 0) = 0"
  by (simp add: frameStep_nth frameStep_length nodeFrame_sel render_nodes clampNode_sel
      boundW_def networkGraphConfig_def)

lemma count_list_distinct:
  "distinct xs \<Longrightarrow> count_list xs a = (if a \<in> set xs then 1 else 0)"
  by (induction xs) auto

lemma set_visitedPairs: "set (visitedPairs n) = {(i, j). i < j \<and> j < n}"
  by (fastforce simp: visitedPairs_def)

lemma distinct_visitedPairs: "distinct (visitedPairs n)"
  unfolding visitedPairs_def
proof (rule distinct_concat)
  show "distinct (map (\<lambda>i. map (Pair i) [i + 1..<n]) [0..<n])"
  proof (subst distinct_map, intro conjI)
    show "distinct [0..<n]" by simp
    show "inj_on (\<lambda>i. map (Pair i) [i + 1..<n]) (set [0..<n])"
    proof (rule inj_onI)
      fix a b
      assume ab: "a \<in> set [0..<n]" "b \<in> set [0..<n]"
        and eq: "map (Pair a) [a + 1..<n] = map (Pair b) [b + 1..<n]"
      from eq have len: "length [a + 1..<n] = length [b + 1..<n]"
        by (metis length_map)
      with ab show "a = b" by simp
    qed
  qed
next
  fix ys assume "ys \<in> set (map (\<lambda>i. map (Pair i) [i + 1..<n]) [0..<n])"
  then show "distinct ys" by (auto simp: distinct_map inj_on_def)
next
  fix ys zs
  assume "ys \<in> set (map (\<lambda>i. map (Pair i) [i + 1..<n]) [0..<n])"
    "zs \<in> set (map (\<lambda>i. map (Pair i) [i + 1..<n]) [0..<n])" "ys \<noteq> zs"
  then show "set ys \<inter> set zs = {}" by auto
qed

lemma edgePairs_Nil: "edgePairs [] = []"
  by (simp add: edgePairs_def)

lemma edgePairs_Cons: "edgePairs (a # ops) = edgePair a @ edgePairs ops"
  by (simp add: edgePairs_def)

lemma edgePairs_append: "edgePairs (xs @ ys) = edgePairs xs @ edgePairs ys"
  by (simp add: edgePairs_def)

lemma edgePairs_concat_map: "edgePairs (concat (map f xs)) = concat (map (\<lambda>a. edgePairs (f a)) xs)"
  by (induction xs) (simp_all add: edgePairs_Nil edgePairs_append)

lemma edgePairs_drawEdge:
  "edgePairs (drawEdge cfg i nd j other) = (if distance3 nd other < maxDistance cfg then [(i, j)] else [])"
  by (simp add: edgePairs_def drawEdge_def Let_def)

lemma concat_map_if: "concat (map (\<lambda>j. if P j then [f j] else []) xs) = map f (filter P xs)"
  by (induction xs) simp_all

lemma edgePairs_opsAt:
  "edgePairs (opsAt cfg cv ns i) = filter (closeEnough cfg cv ns) (map (Pair i) [i + 1 ..< length ns])"
proof -
  have "edgePairs (opsAt cfg cv ns i)
      = concat (map (\<lambda>j. if closeEnough cfg cv ns (i, j) then [(i, j)] else []) [i + 1 ..< length ns])"
    unfolding opsAt_def edgePairs_Cons edgePairs_concat_map edgePairs_drawEdge closeEnough_def
    by simp
  also have "\<dots> = map (Pair i) (filter (\<lambda>j. closeEnough cfg cv ns (i, j)) [i + 1 ..< length ns])"
    by (rule concat_map_if)
  also have "\<dots> = filter (closeEnough cfg cv ns) (map (Pair i) [i + 1 ..< length ns])"
    by (simp add: filter_map comp_def)
  finally show ?thesis .
qed

lemma edgePairs_render:
  "edgePairs (snd (drawNodesAndEdges cfg cv ns)) = filter (closeEnough cfg cv ns) (visitedPairs (length ns))"
proof -
  have "edgePairs (snd (drawNodesAndEdges cfg cv ns))
      = concat (map (\<lambda>i. edgePairs (opsAt cfg cv ns i)) [0 ..< length ns])"
    unfolding drawNodesAndEdges_eq snd_conv edgePairs_Cons edgePairs_concat_map by simp
  also have "\<dots> = filter (closeEnough cfg cv ns) (visitedPairs (length ns))"
    unfolding edgePairs_opsAt visitedPairs_def filter_concat by (simp add: comp_def)
  finally show ?thesis .
qed

lemma clampNode_id: "inBounds cfg cv n \<Longrightarrow> clampNode cfg cv n = n"
  by (simp add: inBounds_def clampNode_def Let_def max_def min_def)

lemma distance3_sym: "distance3 p q = distance3 q p"
  by (simp add: distance3_def power2_commute)

lemma distance3_same_line:
  "y a = y b \<Longrightarrow> z a = z b \<Longrightarrow> distance3 a b = \<bar>x a - x b\<bar>"
  by (simp add: distance3_def)

lemma frameStep_map: "frameStep cfg cv ns = map (nodeFrame cfg cv) ns"
  by (simp add: frameStep_def updateNodes_def render_nodes nodeFrame_def)

lemma adjacent_iff:
  assumes "\<forall>i j. (i, j) \<in> set (edgePairs ops) \<longleftrightarrow> i < j \<and> j < n \<and> P i j"
  shows "adjacent ops a b \<longleftrightarrow> a \<noteq> b \<and> a < n \<and> b < n \<and> P (min a b) (max a b)"
proof (cases a b rule: linorder_cases)
  case less
  then show ?thesis using assms by (auto simp: adjacent_def min_def max_def)
next
  case equal
  then show ?thesis using assms by (simp add: adjacent_def)
next
  case greater
  then show ?thesis using assms by (auto simp: adjacent_def min_def max_def)
qed

text \<open>
  Claim C6, as stated, fails one frame after a start inside the bounds, because the
  clamp of a node runs inside the loop, just before that node's edges are tested. In
  the first array the tick has taken node \<open>0\<close> to \<open>x = -0.05\<close>: the two nodes are stored
  \<open>150.03\<close> apart when the render pass begins, which is not below \<^verbatim>\<open>maxDistance = 150\<close>,
  and the edge is drawn all the same, node \<open>0\<close> being measured from its clamped position.
  In the second array the tick has taken node \<open>1\<close> to \<open>x = 300.05\<close>: the two nodes are
  stored and drawn \<open>149.98\<close> apart after the pass, and no edge is drawn, node \<open>1\<close>
  being measured before its clamp.
\<close>

theorem render_edge_distance_counterexample:
  "inBounds networkGraphConfig \<lparr>width = 300, height = 200\<rparr>
      \<lparr>x = 1/20, y = 0, z = 0, vx = - (1/10), vy = 0, vz = 0\<rparr>
   \<and> inBounds networkGraphConfig \<lparr>width = 300, height = 200\<rparr>
      \<lparr>x = 14998/100, y = 0, z = 0, vx = 0, vy = 0, vz = 0\<rparr>
   \<and> \<not> distance3
        (frameStep networkGraphConfig \<lparr>width = 300, height = 200\<rparr>
          [\<lparr>x = 1/20, y = 0, z = 0, vx = - (1/10), vy = 0, vz = 0\<rparr>,
           \<lparr>x = 14998/100, y = 0, z = 0, vx = 0, vy = 0, vz = 0\<rparr>] ! 0)
        (frameStep networkGraphConfig \<lparr>width = 300, height = 200\<rparr>
          [\<lparr>x = 1/20, y = 0, z = 0, vx = - (1/10), vy = 0, vz = 0\<rparr>,
           \<lparr>x = 14998/100, y = 0, z = 0, vx = 0, vy = 0, vz = 0\<rparr>] ! 1)
      < maxDistance networkGraphConfig
   \<and> (0, 1) \<in> set (edgePairs (snd (drawNodesAndEdges networkGraphConfig \<lparr>width = 300, height = 200\<rparr>
        (frameStep networkGraphConfig \<lparr>width = 300, height = 200\<rparr>
          [\<lparr>x = 1/20, y = 0, z = 0, vx = - (1/10), vy = 0, vz = 0\<rparr>,
           \<lparr>x = 14998/100, y = 0, z = 0, vx = 0, vy = 0, vz = 0\<rparr>]))))
   \<and> inBounds networkGraphConfig \<lparr>width = 300, height = 200\<rparr>
      \<lparr>x = 15002/100, y = 0, z = 0, vx = 0, vy = 0, vz = 0\<rparr>
   \<and> inBounds networkGraphConfig \<lparr>width = 300, height = 200\<rparr>
      \<lparr>x = 29995/100, y = 0, z = 0, vx = 1/10, vy = 0, vz = 0\<rparr>
   \<and> distance3
        (fst (drawNodesAndEdges networkGraphConfig \<lparr>width = 300, height = 200\<rparr>
          (frameStep networkGraphConfig \<lparr>width = 300, height = 200\<rparr>
            [\<lparr>x = 15002/100, y = 0, z = 0, vx = 0, vy = 0, vz = 0\<rparr>,
             \<lparr>x = 29995/100, y = 0, z = 0, vx = 1/10, vy = 0, vz = 0\<rparr>])) ! 0)
        (fst (drawNodesAndEdges networkGraphConfig \<lparr>width = 300, height = 200\<rparr>
          (frameStep networkGraphConfig \<lparr>width = 300, height = 200\<rparr>
            [\<lparr>x = 15002/100, y = 0, z = 0, vx = 0, vy = 0, vz = 0\<rparr>,
             \<lparr>x = 29995/100, y = 0, z = 0, vx = 1/10, vy = 0, vz = 0\<rparr>])) ! 1)
      < maxDistance networkGraphConfig
   \<and> (0, 1) \<notin> set (edgePairs (snd (drawNodesAndEdges networkGraphConfig \<lparr>width = 300, height = 200\<rparr>
        (frameStep networkGraphConfig \<lparr>width = 300, height = 200\<rparr>
          [\<lparr>x = 15002/100, y = 0, z = 0, vx = 0, vy = 0, vz = 0\<rparr>,
           \<lparr>x = 29995/100, y = 0, z = 0, vx = 1/10, vy = 0, vz = 0\<rparr>]))))"
proof -
  have a: "frameStep networkGraphConfig \<lparr>width = 300, height = 200\<rparr>
          [\<lparr>x = 1/20, y = 0, z = 0, vx = - (1/10), vy = 0, vz = 0\<rparr>,
           \<lparr>x = 14998/100, y = 0, z = 0, vx = 0, vy = 0, vz = 0\<rparr>]
      = [\<lparr>x = - (1/20), y = 0, z = 0, vx = 1/10, vy = 0, vz = 0\<rparr>,
         \<lparr>x = 14998/100, y = 0, z = 0, vx = 0, vy = 0, vz = 0\<rparr>]"
    by (simp add: frameStep_map nodeFrame_def updateNode_def clampNode_def Let_def
        networkGraph_bounds)
  have b: "frameStep networkGraphConfig \<lparr>width = 300, height = 200\<rparr>
          [\<lparr>x = 15002/100, y = 0, z = 0, vx = 0, vy = 0, vz = 0\<rparr>,
           \<lparr>x = 29995/100, y = 0, z = 0, vx = 1/10, vy = 0, vz = 0\<rparr>]
      = [\<lparr>x = 15002/100, y = 0, z = 0, vx = 0, vy = 0, vz = 0\<rparr>,
         \<lparr>x = 30005/100, y = 0, z = 0, vx = - (1/10), vy = 0, vz = 0\<rparr>]"
    by (simp add: frameStep_map nodeFrame_def updateNode_def clampNode_def Let_def
        networkGraph_bounds)
  show ?thesis
    unfolding a b
    by (simp add: inBounds_def edgePairs_render visitedPairs_def closeEnough_def
        distance3_same_line render_nodes clampNode_sel networkGraph_bounds
        networkGraph_constants upt_rec)
qed

text \<open>
  Claim C6, amended. For every node array, one render pass runs its two loops through
  each pair of indices \<open>i < j\<close> exactly once: an unordered pair of distinct nodes occurs
  once, a node is never paired with itself. It draws an edge for a pair exactly when the
  three-dimensional Euclidean distance between the lower-index node after its clamp and
  the higher-index node as stored at that moment (not yet clamped in this pass) is
  strictly below \<^verbatim>\<open>maxDistance\<close>; when every node lies within the bounds this is the
  distance of the two nodes as given. No edge is drawn twice or in both directions, no
  node is joined to itself, and two distinct nodes are joined, whichever of them is named
  first, exactly when that distance test holds for the pair.
\<close>

theorem render_edge_set:
  fixes cfg :: config and cv :: canvas and ns :: "node list"
  defines "n \<equiv> length ns" and "ops \<equiv> snd (drawNodesAndEdges cfg cv ns)"
  shows "edgePairs ops = filter (closeEnough cfg cv ns) (visitedPairs n)
    \<and> distinct (visitedPairs n)
    \<and> set (visitedPairs n) = {(i, j). i < j \<and> j < n}
    \<and> (\<forall>a b. a < n \<and> b < n \<and> a \<noteq> b \<longrightarrow>
          count_list (visitedPairs n) (a, b) + count_list (visitedPairs n) (b, a) = 1)
    \<and> (\<forall>a. count_list (visitedPairs n) (a, a) = 0)
    \<and> (\<forall>i j. (i, j) \<in> set (edgePairs ops) \<longleftrightarrow>
          i < j \<and> j < n \<and> distance3 (clampNode cfg cv (ns ! i)) (ns ! j) < maxDistance cfg)
    \<and> ((\<forall>m \<in> set ns. inBounds cfg cv m) \<longrightarrow>
          (\<forall>i j. (i, j) \<in> set (edgePairs ops) \<longleftrightarrow>
             i < j \<and> j < n \<and> distance3 (ns ! i) (ns ! j) < maxDistance cfg))
    \<and> distinct (edgePairs ops)
    \<and> (\<forall>i j. (i, j) \<in> set (edgePairs ops) \<longrightarrow> (j, i) \<notin> set (edgePairs ops))
    \<and> (\<forall>a b. adjacent ops a b \<longleftrightarrow>
          a \<noteq> b \<and> a < n \<and> b < n
          \<and> distance3 (clampNode cfg cv (ns ! min a b)) (ns ! max a b) < maxDistance cfg)
    \<and> ((\<forall>m \<in> set ns. inBounds cfg cv m) \<longrightarrow>
          (\<forall>a b. adjacent ops a b \<longleftrightarrow>
             a \<noteq> b \<and> a < n \<and> b < n \<and> distance3 (ns ! a) (ns ! b) < maxDistance cfg))
    \<and> (\<forall>a b. adjacent ops a b \<longrightarrow> adjacent ops b a)
    \<and> (\<forall>a. \<not> adjacent ops a a)"
proof -
  have e: "edgePairs ops = filter (closeEnough cfg cv ns) (visitedPairs n)"
    by (simp add: ops_def n_def edgePairs_render)
  have d: "distinct (visitedPairs n)"
    by (rule distinct_visitedPairs)
  have s: "set (visitedPairs n) = {(i, j). i < j \<and> j < n}"
    by (rule set_visitedPairs)
  have once: "\<forall>a b. a < n \<and> b < n \<and> a \<noteq> b \<longrightarrow>
      count_list (visitedPairs n) (a, b) + count_list (visitedPairs n) (b, a) = 1"
    by (auto simp: count_list_distinct [OF d] s)
  have never: "\<forall>a. count_list (visitedPairs n) (a, a) = 0"
    by (simp add: count_list_distinct [OF d] s)
  have iff: "\<forall>i j. (i, j) \<in> set (edgePairs ops) \<longleftrightarrow>
      i < j \<and> j < n \<and> distance3 (clampNode cfg cv (ns ! i)) (ns ! j) < maxDistance cfg"
    by (auto simp: e s closeEnough_def)
  have same: "distance3 (clampNode cfg cv (ns ! i)) (ns ! j) = distance3 (ns ! i) (ns ! j)"
    if "\<forall>m \<in> set ns. inBounds cfg cv m" and "i < n" for i j
  proof -
    from that have "ns ! i \<in> set ns" by (simp add: n_def)
    with that(1) show ?thesis by (simp add: clampNode_id)
  qed
  have inb: "(\<forall>m \<in> set ns. inBounds cfg cv m) \<longrightarrow>
      (\<forall>i j. (i, j) \<in> set (edgePairs ops) \<longleftrightarrow>
         i < j \<and> j < n \<and> distance3 (ns ! i) (ns ! j) < maxDistance cfg)"
  proof (intro impI allI)
    fix i j
    assume all: "\<forall>m \<in> set ns. inBounds cfg cv m"
    show "(i, j) \<in> set (edgePairs ops) \<longleftrightarrow>
        i < j \<and> j < n \<and> distance3 (ns ! i) (ns ! j) < maxDistance cfg"
    proof (cases "i < j \<and> j < n")
      case True
      then have "i < n" by simp
      from same [OF all this] iff show ?thesis by simp
    next
      case False
      with iff show ?thesis by blast
    qed
  qed
  have de: "distinct (edgePairs ops)"
    by (simp add: e d)
  have one_way: "\<forall>i j. (i, j) \<in> set (edgePairs ops) \<longrightarrow> (j, i) \<notin> set (edgePairs ops)"
    using iff by auto
  have adj: "\<forall>a b. adjacent ops a b \<longleftrightarrow>
      a \<noteq> b \<and> a < n \<and> b < n
      \<and> distance3 (clampNode cfg cv (ns ! min a b)) (ns ! max a b) < maxDistance cfg"
    using adjacent_iff [OF iff] by blast
  have adj_inb: "(\<forall>m \<in> set ns. inBounds cfg cv m) \<longrightarrow>
      (\<forall>a b. adjacent ops a b \<longleftrightarrow>
         a \<noteq> b \<and> a < n \<and> b < n \<and> distance3 (ns ! a) (ns ! b) < maxDistance cfg)"
  proof (intro impI allI)
    fix a b
    assume all: "\<forall>m \<in> set ns. inBounds cfg cv m"
    show "adjacent ops a b \<longleftrightarrow>
        a \<noteq> b \<and> a < n \<and> b < n \<and> distance3 (ns ! a) (ns ! b) < maxDistance cfg"
    proof (cases "a \<noteq> b \<and> a < n \<and> b < n")
      case True
      then have m: "min a b < n" by (auto simp: min_def)
      have "distance3 (ns ! min a b) (ns ! max a b) = distance3 (ns ! a) (ns ! b)"
        by (cases "a \<le> b") (simp_all add: min_def max_def distance3_sym [of "ns ! b"])
      with same [OF all m, of "max a b"] adj True show ?thesis by simp
    next
      case False
      with adj show ?thesis by blast
    qed
  qed
  have sym: "\<forall>a b. adjacent ops a b \<longrightarrow> adjacent ops b a"
    by (auto simp: adjacent_def)
  have irr: "\<forall>a. \<not> adjacent ops a a"
    using adj by simp
  from e d s once never iff inb de one_way adj adj_inb sym irr show ?thesis by blast
qed

theorem render_edge_set_witness:
  "edgePairs (snd (drawNodesAndEdges networkGraphConfig \<lparr>width = 300, height = 200\<rparr>
      [\<lparr>x = 0, y = 0, z = 0, vx = 0, vy = 0, vz = 0\<rparr>,
       \<lparr>x = 50, y = 0, z = 0, vx = 0, vy = 0, vz = 0\<rparr>,
       \<lparr>x = 250, y = 0, z = 0, vx = 0, vy = 0, vz = 0\<rparr>])) = [(0, 1)]
   \<and> visitedPairs 3 = [(0, 1), (0, 2), (1, 2)]
   \<and> adjacent (snd (drawNodesAndEdges networkGraphConfig \<lparr>width = 300, height = 200\<rparr>
      [\<lparr>x = 0, y = 0, z = 0, vx = 0, vy = 0, vz = 0\<rparr>,
       \<lparr>x = 50, y = 0, z = 0, vx = 0, vy = 0, vz = 0\<rparr>,
       \<lparr>x = 250, y = 0, z = 0, vx = 0, vy = 0, vz = 0\<rparr>])) 1 0
   \<and> \<not> adjacent (snd (drawNodesAndEdges networkGraphConfig \<lparr>width = 300, height = 200\<rparr>
      [\<lparr>x = 0, y = 0, z = 0, vx = 0, vy = 0, vz = 0\<rparr>,
       \<lparr>x = 50, y = 0, z = 0, vx = 0, vy = 0, vz = 0\<rparr>,
       \<lparr>x = 250, y = 0, z = 0, vx = 0, vy = 0, vz = 0\<rparr>])) 2 1
   \<and> count_list (visitedPairs 3) (2, 0) + count_list (visitedPairs 3) (0, 2) = 1"
  using render_edge_set [of networkGraphConfig "\<lparr>width = 300, height = 200\<rparr>"
      "[\<lparr>x = 0, y = 0, z = 0, vx = 0, vy = 0, vz = 0\<rparr>,
        \<lparr>x = 50, y = 0, z = 0, vx = 0, vy = 0, vz = 0\<rparr>,
        \<lparr>x = 250, y = 0, z = 0, vx = 0, vy = 0, vz = 0\<rparr>]"]
  by (simp add: visitedPairs_def closeEnough_def distance3_same_line clampNode_sel clampNode_def
      networkGraph_bounds networkGraphConfig_def adjacent_def upt_rec numeral_3_eq_3)

lemma edge_in_render:
  assumes "Edge i j x1 y1 x2 y2 w a \<in> set (snd (drawNodesAndEdges cfg cv ns))"
  shows "i < j \<and> j < length ns
    \<and> [Edge i j x1 y1 x2 y2 w a] = drawEdge cfg i (clampNode cfg cv (ns ! i)) j (ns ! j)"
proof -
  from assms obtain k where k: "k < length ns" "Edge i j x1 y1 x2 y2 w a \<in> set (opsAt cfg cv ns k)"
    by (auto simp: drawNodesAndEdges_eq)
  then obtain l where l: "k < l" "l < length ns"
      "Edge i j x1 y1 x2 y2 w a \<in> set (drawEdge cfg k (clampNode cfg cv (ns ! k)) l (ns ! l))"
    by (auto simp: opsAt_def Suc_le_eq)
  from l(3) have "i = k \<and> j = l
      \<and> drawEdge cfg k (clampNode cfg cv (ns ! k)) l (ns ! l) = [Edge i j x1 y1 x2 y2 w a]"
    by (auto simp: drawEdge_def Let_def split: if_splits)
  with l show ?thesis by simp
qed

lemma scenario_trace:
  "snd (drawNodesAndEdges networkGraphConfig \<lparr>width = 300, height = 200\<rparr>
      [\<lparr>x = 0, y = 0, z = 0, vx = 0, vy = 0, vz = 0\<rparr>,
       \<lparr>x = 50, y = 0, z = 0, vx = 0, vy = 0, vz = 0\<rparr>])
   = [Background, Disc 0 0 0 10, Edge 0 1 0 0 50 0 0 (1/5), Disc 1 50 0 10]"
  by (simp add: drawNodesAndEdges_eq opsAt_def drawEdge_def distance3_same_line clampNode_sel
      networkGraph_bounds networkGraph_constants getNodeSize_def upt_rec)

text \<open>
  Claim C7, as stated, fails on its own scenario: for nodes at \<open>(0,0,0)\<close> and
  \<open>(50,0,0)\<close> with \<^verbatim>\<open>maxDistance = 150\<close> the one edge drawn has opacity
  \<open>(1 - 50/150) * 0.3 = 0.2\<close>, which is not approximately \<open>0.1667\<close>.
\<close>

theorem edge_opacity_counterexample:
  "snd (drawNodesAndEdges networkGraphConfig \<lparr>width = 300, height = 200\<rparr>
      [\<lparr>x = 0, y = 0, z = 0, vx = 0, vy = 0, vz = 0\<rparr>,
       \<lparr>x = 50, y = 0, z = 0, vx = 0, vy = 0, vz = 0\<rparr>])
   = [Background, Disc 0 0 0 10, Edge 0 1 0 0 50 0 0 (1/5), Disc 1 50 0 10]
   \<and> \<not> \<bar>(1/5 :: real) - 1667/10000\<bar> < 1/100"
  by (simp add: scenario_trace)

text \<open>
  Claim C7, amended. Every edge in the trace of a render pass joins indices \<open>i < j\<close> whose
  distance is below \<^verbatim>\<open>maxDistance\<close> and has opacity
  \<open>(1 - distance / maxDistance) * edgeAlpha\<close>, where the factor is fixed per script
  (\<open>0.3\<close> in the static-page and filter-page scripts, \<open>1\<close> in the tile-graph script);
  for nodes at \<open>(0,0,0)\<close> and \<open>(50,0,0)\<close> with \<^verbatim>\<open>maxDistance = 150\<close> and factor
  \<open>0.3\<close> the edge is drawn with opacity exactly \<open>0.2\<close>.
\<close>

theorem edge_opacity:
  assumes "Edge i j x1 y1 x2 y2 w a \<in> set (snd (drawNodesAndEdges cfg cv ns))"
  shows "a = (1 - distance3 (clampNode cfg cv (ns ! i)) (ns ! j) / maxDistance cfg) * edgeAlpha cfg
    \<and> distance3 (clampNode cfg cv (ns ! i)) (ns ! j) < maxDistance cfg
    \<and> i < j \<and> j < length ns
    \<and> edgeAlpha networkGraphConfig = 3/10 \<and> edgeAlpha (filterPageConfig r) = 3/10
    \<and> edgeAlpha (tileGraphConfig r h) = 1
    \<and> snd (drawNodesAndEdges networkGraphConfig \<lparr>width = 300, height = 200\<rparr>
          [\<lparr>x = 0, y = 0, z = 0, vx = 0, vy = 0, vz = 0\<rparr>,
           \<lparr>x = 50, y = 0, z = 0, vx = 0, vy = 0, vz = 0\<rparr>])
        = [Background, Disc 0 0 0 10, Edge 0 1 0 0 50 0 0 (1/5), Disc 1 50 0 10]"
proof -
  from edge_in_render [OF assms]
  have "i < j" "j < length ns"
    and eq: "[Edge i j x1 y1 x2 y2 w a] = drawEdge cfg i (clampNode cfg cv (ns ! i)) j (ns ! j)"
    by simp_all
  from eq have "a = (1 - distance3 (clampNode cfg cv (ns ! i)) (ns ! j) / maxDistance cfg) * edgeAlpha cfg
      \<and> distance3 (clampNode cfg cv (ns ! i)) (ns ! j) < maxDistance cfg"
    by (auto simp: drawEdge_def Let_def split: if_splits)
  moreover have "edgeAlpha networkGraphConfig = 3/10 \<and> edgeAlpha (filterPageConfig r) = 3/10
      \<and> edgeAlpha (tileGraphConfig r h) = 1"
    by (simp add: networkGraphConfig_def filterPageConfig_def tileGraphConfig_def)
  ultimately show ?thesis
    using \<open>i < j\<close> \<open>j < length ns\<close> scenario_trace by blast
qed

theorem edge_opacity_witness:
  "Edge 0 1 0 0 50 0 0 (1/5) \<in> set (snd (drawNodesAndEdges networkGraphConfig \<lparr>width = 300, height = 200\<rparr>
      [\<lparr>x = 0, y = 0, z = 0, vx = 0, vy = 0, vz = 0\<rparr>,
       \<lparr>x = 50, y = 0, z = 0, vx = 0, vy = 0, vz = 0\<rparr>]))
   \<and> (1/5 :: real) = (1 - distance3
          (clampNode networkGraphConfig \<lparr>width = 300, height = 200\<rparr>
             ([\<lparr>x = 0, y = 0, z = 0, vx = 0, vy = 0, vz = 0\<rparr>,
               \<lparr>x = 50, y = 0, z = 0, vx = 0, vy = 0, vz = 0\<rparr>] ! 0))
          ([\<lparr>x = 0, y = 0, z = 0, vx = 0, vy = 0, vz = 0\<rparr>,
            \<lparr>x = 50, y = 0, z = 0, vx = 0, vy = 0, vz = 0\<rparr>] ! 1) / maxDistance networkGraphConfig)
        * edgeAlpha networkGraphConfig"
proof -
  have m: "Edge 0 1 0 0 50 0 0 (1/5) \<in> set (snd (drawNodesAndEdges networkGraphConfig \<lparr>width = 300, height = 200\<rparr>
      [\<lparr>x = 0, y = 0, z = 0, vx = 0, vy = 0, vz = 0\<rparr>,
       \<lparr>x = 50, y = 0, z = 0, vx = 0, vy = 0, vz = 0\<rparr>]))"
    by (simp add: scenario_trace)
  from edge_opacity [OF m] m show ?thesis by blast
qed

text \<open>
  Claim C8, as stated, fails on its arithmetic: a node at \<open>x = 0.1\<close> with \<open>vx = -0.4\<close>
  is at \<open>x = -0.3\<close> after one tick, not at \<open>x = -3\<close>.
\<close>

theorem tick_scenario_counterexample:
  "x (updateNodes networkGraphConfig \<lparr>width = 300, height = 200\<rparr>
        [\<lparr>x = 1/10, y = 5, z = 50, vx = - (4/10), vy = 0, vz = 0\<rparr>] ! 0) = - (3/10)
   \<and> x (updateNodes networkGraphConfig \<lparr>width = 300, height = 200\<rparr>
        [\<lparr>x = 1/10, y = 5, z = 50, vx = - (4/10), vy = 0, vz = 0\<rparr>] ! 0) \<noteq> - 3"
  by (simp add: updateNodes_def updateNode_sel)

lemma disc_in_render:
  assumes "i < length ns"
  shows "Disc i (x (clampNode cfg cv (ns ! i))) (y (clampNode cfg cv (ns ! i)))
      (getNodeSize cfg (z (clampNode cfg cv (ns ! i)))) \<in> set (snd (drawNodesAndEdges cfg cv ns))"
  using assms by (auto simp: drawNodesAndEdges_eq opsAt_def)

text \<open>
  Claim C8, amended. A node with \<open>x = 0.1\<close> and \<open>vx = -0.4\<close> is at \<open>x = -0.3\<close> with
  \<open>vx = +0.4\<close> after one tick; the render pass that follows stores and draws it at
  \<open>x = 0\<close> and leaves its velocity at \<open>+0.4\<close>. A render pass never changes a velocity.
\<close>

theorem tick_then_render_scenario:
  fixes cfg :: config and cv :: canvas and ns ms :: "node list" and i :: nat
  defines "ticked \<equiv> updateNodes cfg cv ns"
  defines "rendered \<equiv> fst (drawNodesAndEdges cfg cv ticked)"
  assumes "i < length ns" and "x (ns ! i) = 1/10" and "vx (ns ! i) = - (4/10)"
  shows "x (ticked ! i) = - (3/10) \<and> vx (ticked ! i) = 4/10
    \<and> x (rendered ! i) = 0 \<and> vx (rendered ! i) = 4/10
    \<and> Disc i 0 (y (rendered ! i)) (getNodeSize cfg (z (rendered ! i)))
         \<in> set (snd (drawNodesAndEdges cfg cv ticked))
    \<and> map vx (fst (drawNodesAndEdges cfg cv ms)) = map vx ms
    \<and> map vy (fst (drawNodesAndEdges cfg cv ms)) = map vy ms
    \<and> map vz (fst (drawNodesAndEdges cfg cv ms)) = map vz ms"
proof -
  have t: "ticked ! i = updateNode cfg cv (ns ! i)" and lt: "i < length ticked"
    using assms(3) by (simp_all add: ticked_def updateNodes_def)
  have r: "rendered ! i = clampNode cfg cv (ticked ! i)"
    using lt by (simp add: rendered_def render_nodes)
  have tx: "x (ticked ! i) = - (3/10)" and tv: "vx (ticked ! i) = 4/10"
    using assms(4,5) by (simp_all add: t updateNode_sel)
  have rx: "x (rendered ! i) = 0" and rv: "vx (rendered ! i) = 4/10"
    using tx tv by (simp_all add: r clampNode_sel)
  have disc: "Disc i 0 (y (rendered ! i)) (getNodeSize cfg (z (rendered ! i)))
         \<in> set (snd (drawNodesAndEdges cfg cv ticked))"
    using disc_in_render [OF lt, of cfg cv] rx by (simp add: r)
  have keep: "map vx (fst (drawNodesAndEdges cfg cv ms)) = map vx ms"
    "map vy (fst (drawNodesAndEdges cfg cv ms)) = map vy ms"
    "map vz (fst (drawNodesAndEdges cfg cv ms)) = map vz ms"
    by (simp_all add: render_nodes comp_def clampNode_sel)
  from tx tv rx rv disc keep show ?thesis by blast
qed

theorem tick_then_render_scenario_witness:
  "0 < length [\<lparr>x = 1/10, y = 5, z = 50, vx = - (4/10), vy = 0, vz = 0\<rparr>]
   \<and> x ([\<lparr>x = 1/10, y = 5, z = 50, vx = - (4/10), vy = 0, vz = 0\<rparr>] ! 0) = 1/10
   \<and> vx ([\<lparr>x = 1/10, y = 5, z = 50, vx = - (4/10), vy = 0, vz = 0\<rparr>] ! 0) = - (4/10)
   \<and> x (fst (drawNodesAndEdges networkGraphConfig \<lparr>width = 300, height = 200\<rparr>
        (updateNodes networkGraphConfig \<lparr>width = 300, height = 200\<rparr>
          [\<lparr>x = 1/10, y = 5, z = 50, vx = - (4/10), vy = 0, vz = 0\<rparr>])) ! 0) = 0
   \<and> vx (fst (drawNodesAndEdges networkGraphConfig \<lparr>width = 300, height = 200\<rparr>
        (updateNodes networkGraphConfig \<lparr>width = 300, height = 200\<rparr>
          [\<lparr>x = 1/10, y = 5, z = 50, vx = - (4/10), vy = 0, vz = 0\<rparr>])) ! 0) = 4/10"
  using tick_then_render_scenario [where cfg = networkGraphConfig and i = 0
      and cv = "\<lparr>width = 300, height = 200\<rparr>"
      and ns = "[\<lparr>x = 1/10, y = 5, z = 50, vx = - (4/10), vy = 0, vz = 0\<rparr>]"]
  by simp

section \<open>The reflection test at the boundary\<close>

text \<open>
  Claim C10, as stated, fails for a node that sits on a boundary before the tick: the test
  reads the coordinate after the velocity has been added. A node at \<open>x = 0\<close> that moves
  left has its velocity negated; so has a node that the renderer has clamped onto the
  right edge of a narrowed canvas while it moves right.
\<close>

theorem boundary_tick_counterexample:
  "x \<lparr>x = 0, y = 5, z = 50, vx = - (1/10), vy = 0, vz = 0\<rparr> = 0
   \<and> vx (updateNodes networkGraphConfig \<lparr>width = 300, height = 200\<rparr>
        [\<lparr>x = 0, y = 5, z = 50, vx = - (1/10), vy = 0, vz = 0\<rparr>] ! 0) = 1/10
   \<and> x (fst (drawNodesAndEdges networkGraphConfig \<lparr>width = 100, height = 200\<rparr>
        [\<lparr>x = 150, y = 5, z = 50, vx = 1/10, vy = 0, vz = 0\<rparr>]) ! 0)
       = boundW networkGraphConfig \<lparr>width = 100, height = 200\<rparr>
   \<and> vx (fst (drawNodesAndEdges networkGraphConfig \<lparr>width = 100, height = 200\<rparr>
        [\<lparr>x = 150, y = 5, z = 50, vx = 1/10, vy = 0, vz = 0\<rparr>]) ! 0) = 1/10
   \<and> vx (updateNodes networkGraphConfig \<lparr>width = 100, height = 200\<rparr>
        (fst (drawNodesAndEdges networkGraphConfig \<lparr>width = 100, height = 200\<rparr>
          [\<lparr>x = 150, y = 5, z = 50, vx = 1/10, vy = 0, vz = 0\<rparr>])) ! 0) = - (1/10)"
  by (simp add: render_nodes updateNodes_def updateNode_sel clampNode_sel boundW_def boundH_def
      networkGraphConfig_def)

text \<open>
  Claim C10, amended. The reflection test of the tick compares strictly, and it compares
  the coordinate the tick has just written (old coordinate plus velocity): when that
  coordinate is exactly \<open>0\<close> or exactly the bound, the velocity component is unchanged,
  and a velocity component changes only when that coordinate is strictly outside the
  closed interval. A node that sits on a boundary before the tick and moves outwards has
  its velocity negated.
\<close>

theorem reflection_test_is_strict:
  fixes cfg :: config and cv :: canvas and ns :: "node list" and i :: nat
  defines "before \<equiv> ns ! i" and "after \<equiv> updateNodes cfg cv ns ! i"
  assumes "0 < dpr cfg" and "0 \<le> perspectiveDepth cfg" and "i < length ns"
  shows "(x after = 0 \<or> x after = boundW cfg cv \<longrightarrow> vx after = vx before)
    \<and> (y after = 0 \<or> y after = boundH cfg cv \<longrightarrow> vy after = vy before)
    \<and> (z after = 0 \<or> z after = perspectiveDepth cfg \<longrightarrow> vz after = vz before)
    \<and> (vx after \<noteq> vx before \<longrightarrow> x after < 0 \<or> boundW cfg cv < x after)
    \<and> (vy after \<noteq> vy before \<longrightarrow> y after < 0 \<or> boundH cfg cv < y after)
    \<and> (vz after \<noteq> vz before \<longrightarrow> z after < 0 \<or> perspectiveDepth cfg < z after)
    \<and> x after = x before + vx before \<and> y after = y before + vy before
    \<and> z after = z before + vz before
    \<and> (x before = 0 \<and> vx before < 0 \<longrightarrow> vx after = - vx before)
    \<and> (x before = boundW cfg cv \<and> 0 < vx before \<longrightarrow> vx after = - vx before)
    \<and> (y before = 0 \<and> vy before < 0 \<longrightarrow> vy after = - vy before)
    \<and> (y before = boundH cfg cv \<and> 0 < vy before \<longrightarrow> vy after = - vy before)
    \<and> (z before = 0 \<and> vz before < 0 \<longrightarrow> vz after = - vz before)
    \<and> (z before = perspectiveDepth cfg \<and> 0 < vz before \<longrightarrow> vz after = - vz before)"
proof -
  have a: "after = updateNode cfg cv before"
    using assms(5) by (simp add: after_def before_def updateNodes_def)
  show ?thesis
    using boundW_nonneg [OF assms(3), of cv] boundH_nonneg [OF assms(3), of cv] assms(4)
    by (auto simp: a updateNode_sel)
qed

theorem reflection_test_is_strict_witness:
  "0 < dpr networkGraphConfig \<and> 0 \<le> perspectiveDepth networkGraphConfig
   \<and> 0 < length [\<lparr>x = 1/10, y = 5, z = 9995/100, vx = - (1/10), vy = 1/10, vz = 1/10\<rparr>]
   \<and> x (updateNodes networkGraphConfig \<lparr>width = 300, height = 200\<rparr>
        [\<lparr>x = 1/10, y = 5, z = 9995/100, vx = - (1/10), vy = 1/10, vz = 1/10\<rparr>] ! 0) = 0
   \<and> vx (updateNodes networkGraphConfig \<lparr>width = 300, height = 200\<rparr>
        [\<lparr>x = 1/10, y = 5, z = 9995/100, vx = - (1/10), vy = 1/10, vz = 1/10\<rparr>] ! 0) = - (1/10)
   \<and> vz (updateNodes networkGraphConfig \<lparr>width = 300, height = 200\<rparr>
        [\<lparr>x = 1/10, y = 5, z = 9995/100, vx = - (1/10), vy = 1/10, vz = 1/10\<rparr>] ! 0) = - (1/10)
   \<and> perspectiveDepth networkGraphConfig
       < z (updateNodes networkGraphConfig \<lparr>width = 300, height = 200\<rparr>
        [\<lparr>x = 1/10, y = 5, z = 9995/100, vx = - (1/10), vy = 1/10, vz = 1/10\<rparr>] ! 0)"
  using reflection_test_is_strict [where cfg = networkGraphConfig and i = 0
      and ns = "[\<lparr>x = 1/10, y = 5, z = 9995/100, vx = - (1/10), vy = 1/10, vz = 1/10\<rparr>]"
      and cv = "\<lparr>width = 300, height = 200\<rparr>"]
  by (simp add: networkGraph_bounds updateNodes_def updateNode_sel)

section \<open>Properties of the lifecycle\<close>

lemma render_fields:
  "animationFrameId (render cfg s) = animationFrameId s"
  "frameRequests (render cfg s) = frameRequests s"
  "lastRequest (render cfg s) = lastRequest s"
  "canvas (render cfg s) = canvas s"
  "renders (render cfg s) = renders s + 1"
  "nodes (render cfg s) = fst (drawNodesAndEdges cfg (canvas s) (nodes s))"
  "painted (render cfg s) = snd (drawNodesAndEdges cfg (canvas s) (nodes s))"
  by (simp_all add: render_def Let_def)

lemma animate_fields:
  "animationFrameId (animate cfg s) = Some (lastRequest s + 1)"
  "frameRequests (animate cfg s) = frameRequests s @ [lastRequest s + 1]"
  "lastRequest (animate cfg s) = lastRequest s + 1"
  "canvas (animate cfg s) = canvas s"
  "renders (animate cfg s) = renders s + 1"
  "nodes (animate cfg s) = frameStep cfg (canvas s) (nodes s)"
  "painted (animate cfg s) = snd (drawNodesAndEdges cfg (canvas s) (nodes s))"
  by (simp_all add: animate_def requestAnimationFrame_def Let_def render_fields frameStep_def)

lemma singleLoop_render: "singleLoop (render cfg s) = singleLoop s"
  by (simp add: singleLoop_def render_fields split: option.splits)

lemma singleLoop_animate: "frameRequests s = [] \<Longrightarrow> singleLoop (animate cfg s)"
  by (simp add: singleLoop_def animate_fields)

lemma singleLoop_truthy: "singleLoop s \<Longrightarrow> truthy (animationFrameId s) \<longleftrightarrow> animationFrameId s \<noteq> None"
  by (auto simp: singleLoop_def truthy_def split: option.splits)

lemma singleLoop_mouseover: "singleLoop s \<Longrightarrow> singleLoop (mouseover cfg s)"
  by (auto simp: mouseover_def singleLoop_truthy intro!: singleLoop_animate)
     (simp add: singleLoop_def)

lemma singleLoop_mouseleave: "singleLoop s \<Longrightarrow> singleLoop (mouseleave cfg s)"
  by (auto simp: mouseleave_def singleLoop_render split: option.splits)
     (simp add: singleLoop_def cancelAnimationFrame_def)

lemma singleLoop_resize: "singleLoop s \<Longrightarrow> singleLoop (resize cfg cv s)"
  by (simp add: resize_def singleLoop_render) (simp add: singleLoop_def split: option.splits)

lemma singleLoop_animationFrame: "singleLoop s \<Longrightarrow> singleLoop (animationFrame cfg s)"
proof (cases "animationFrameId s")
  case None
  assume "singleLoop s"
  with None have "frameRequests s = []" by (simp add: singleLoop_def)
  then have "animationFrame cfg s = s" by (simp add: animationFrame_def)
  with \<open>singleLoop s\<close> show ?thesis by simp
next
  case (Some h)
  assume "singleLoop s"
  with Some have "frameRequests s = [h]" by (simp add: singleLoop_def)
  then have "animationFrame cfg s = animate cfg (s\<lparr>frameRequests := []\<rparr>)"
    by (simp add: animationFrame_def)
  then show ?thesis by (simp add: singleLoop_animate)
qed

lemma singleLoop_step: "singleLoop s \<Longrightarrow> singleLoop (step cfg e s)"
  by (cases e)
     (simp_all add: singleLoop_mouseover singleLoop_mouseleave singleLoop_resize singleLoop_animationFrame)

lemma singleLoop_run: "singleLoop s \<Longrightarrow> singleLoop (run cfg evs s)"
  unfolding run_def by (induction evs arbitrary: s) (simp_all add: singleLoop_step)

lemma singleLoop_initialize: "singleLoop (initialize cfg cv rnd)"
  by (simp add: initialize_def singleLoop_render) (simp add: singleLoop_def)

lemma singleLoop_pending: "singleLoop s \<Longrightarrow> length (frameRequests s) \<le> 1"
  by (auto simp: singleLoop_def split: option.splits)

text \<open>
  In the three scripts with a guard, at most one animation-frame callback is pending at
  any time, whatever the sequence of triggers, and a start trigger on a running instance
  changes nothing.
\<close>

lemma guarded_single_loop:
  "length (frameRequests (run cfg evs (initialize cfg cv rnd))) \<le> 1
   \<and> singleLoop (run cfg evs (initialize cfg cv rnd))
   \<and> mouseover cfg (mouseover cfg (run cfg evs (initialize cfg cv rnd)))
       = mouseover cfg (run cfg evs (initialize cfg cv rnd))"
proof -
  define s where "s = run cfg evs (initialize cfg cv rnd)"
  have inv: "singleLoop s"
    unfolding s_def by (rule singleLoop_run [OF singleLoop_initialize])
  have "truthy (animationFrameId (mouseover cfg s))"
    using inv by (auto simp: mouseover_def animate_fields truthy_def)
  then have "mouseover cfg (mouseover cfg s) = mouseover cfg s"
    by (simp add: mouseover_def [of cfg "mouseover cfg s"])
  with inv singleLoop_pending [OF inv] show ?thesis
    unfolding s_def by simp
qed

lemma flatDraw_fields:
  "flatIntervals (flatDraw s) = flatIntervals s"
  "flatLastTimer (flatDraw s) = flatLastTimer s"
  "flatFrameRequests (flatDraw s) = flatFrameRequests s @ [flatLastRequest s + 1]"
  "flatLastRequest (flatDraw s) = flatLastRequest s + 1"
  "flatNodes (flatDraw s) = flatNodes s"
  "flatCanvas (flatDraw s) = flatCanvas s"
  "flatAnimationFrameId (flatDraw s) = Some (flatLastRequest s + 1)"
  "flatPainted (flatDraw s) = flatOps (flatNodes s)"
  by (simp_all add: flatDraw_def Let_def)

lemma flatMouseover_fields:
  "flatIntervals (flatMouseover cv rnd s) = flatIntervals s @ [flatLastTimer s + 1]"
  "flatLastTimer (flatMouseover cv rnd s) = flatLastTimer s + 1"
  "flatFrameRequests (flatMouseover cv rnd s) = flatFrameRequests s @ [flatLastRequest s + 1]"
  "flatLastRequest (flatMouseover cv rnd s) = flatLastRequest s + 1"
  "flatNodes (flatMouseover cv rnd s) = flatCreateNodes cv rnd"
  "flatCanvas (flatMouseover cv rnd s) = cv"
  "flatAnimationFrameId (flatMouseover cv rnd s) = Some (flatLastTimer s + 1)"
  "flatPainted (flatMouseover cv rnd s) = flatOps (flatCreateNodes cv rnd)"
  by (simp_all add: flatMouseover_def Let_def flatDraw_fields)

lemma flatMouseleave_fields:
  "flatPainted (flatMouseleave s) = []"
  "flatNodes (flatMouseleave s) = flatNodes s"
  "flatCanvas (flatMouseleave s) = flatCanvas s"
  "flatAnimationFrameId (flatMouseleave s) = flatAnimationFrameId s"
  "flatFrameRequests (flatMouseleave s) = flatFrameRequests s"
  "flatLastRequest (flatMouseleave s) = flatLastRequest s"
  "flatLastTimer (flatMouseleave s) = flatLastTimer s"
  "flatIntervals (flatMouseleave s) =
     (case flatAnimationFrameId s of None \<Rightarrow> flatIntervals s | Some h \<Rightarrow> removeAll h (flatIntervals s))"
  by (simp_all add: flatMouseleave_def clearInterval_def split: option.splits)

text \<open>Every run of the interval callback requests one more animation-frame callback.\<close>

lemma flatAnimate_requests:
  "flatFrameRequests (flatAnimate s) = flatFrameRequests s @ [flatLastRequest s + 1]
   \<and> flatIntervals (flatAnimate s) = flatIntervals s
   \<and> flatNodes (flatAnimate s) = map (flatUpdateNode (flatCanvas s)) (flatNodes s)"
  by (simp add: flatAnimate_def Let_def flatDraw_fields)

lemma flatLoaded_fields:
  "flatIntervals (flatLoaded cv) = []" "flatLastTimer (flatLoaded cv) = 0"
  "flatFrameRequests (flatLoaded cv) = []" "flatLastRequest (flatLoaded cv) = 0"
  "flatAnimationFrameId (flatLoaded cv) = None" "flatPainted (flatLoaded cv) = []"
  by (simp_all add: flatLoaded_def)

text \<open>
  Claim C3 on the flat hover-only script: two pointer-enter triggers in a row leave two
  interval timers running and two animation-frame callbacks pending.
\<close>

theorem flat_mouseover_twice:
  "flatIntervals (flatMouseover \<lparr>width = 300, height = 200\<rparr> (\<lambda>k. 1/2)
      (flatMouseover \<lparr>width = 300, height = 200\<rparr> (\<lambda>k. 1/2)
        (flatLoaded \<lparr>width = 300, height = 200\<rparr>))) = [1, 2]
   \<and> flatFrameRequests (flatMouseover \<lparr>width = 300, height = 200\<rparr> (\<lambda>k. 1/2)
      (flatMouseover \<lparr>width = 300, height = 200\<rparr> (\<lambda>k. 1/2)
        (flatLoaded \<lparr>width = 300, height = 200\<rparr>))) = [1, 2]
   \<and> flatIntervals (flatMouseover \<lparr>width = 300, height = 200\<rparr> (\<lambda>k. 1/2)
        (flatLoaded \<lparr>width = 300, height = 200\<rparr>)) = [1]"
  by (simp add: flatMouseover_fields flatLoaded_fields)

text \<open>
  Once an animation-frame callback has run, the handle variable of the flat script holds
  the handle of the next frame request, and the pointer-leave listener no longer clears
  the interval timer (with handles numbered as in this model): the timer fires again and
  requests yet another frame.
\<close>

lemma flat_stop_after_frame:
  "flatAnimationFrameId (flatAnimationFrame (flatMouseover \<lparr>width = 300, height = 200\<rparr> (\<lambda>k. 1/2)
      (flatLoaded \<lparr>width = 300, height = 200\<rparr>))) = Some 2
   \<and> flatIntervals (flatMouseleave (flatAnimationFrame (flatMouseover \<lparr>width = 300, height = 200\<rparr> (\<lambda>k. 1/2)
      (flatLoaded \<lparr>width = 300, height = 200\<rparr>)))) = [1]
   \<and> flatFrameRequests (flatMouseleave (flatAnimationFrame (flatMouseover \<lparr>width = 300, height = 200\<rparr> (\<lambda>k. 1/2)
      (flatLoaded \<lparr>width = 300, height = 200\<rparr>)))) = [2]
   \<and> flatFrameRequests (flatTimers (flatMouseleave (flatAnimationFrame (flatMouseover \<lparr>width = 300, height = 200\<rparr> (\<lambda>k. 1/2)
      (flatLoaded \<lparr>width = 300, height = 200\<rparr>))))) = [2, 3]"
  by (simp add: flatAnimationFrame_def flatTimers_def flatMouseleave_fields flatMouseover_fields
      flatLoaded_fields flatDraw_fields flatAnimate_requests)

lemma mouseleave_idle: "\<not> truthy (animationFrameId s) \<Longrightarrow> mouseleave cfg s = s"
  by (auto simp: mouseleave_def truthy_def split: option.splits)

lemma mouseleave_running:
  assumes "truthy (animationFrameId s)"
  shows "mouseleave cfg s =
     render cfg ((cancelAnimationFrame (the (animationFrameId s)) s)\<lparr>animationFrameId := None\<rparr>)"
  using assms by (auto simp: mouseleave_def truthy_def split: option.splits)

lemma mouseleave_fields:
  assumes "truthy (animationFrameId s)"
  shows "animationFrameId (mouseleave cfg s) = None"
    "frameRequests (mouseleave cfg s) = removeAll (the (animationFrameId s)) (frameRequests s)"
    "renders (mouseleave cfg s) = renders s + 1"
    "painted (mouseleave cfg s) = snd (drawNodesAndEdges cfg (canvas s) (nodes s))"
    "nodes (mouseleave cfg s) = fst (drawNodesAndEdges cfg (canvas s) (nodes s))"
    "canvas (mouseleave cfg s) = canvas s"
    "lastRequest (mouseleave cfg s) = lastRequest s"
  by (simp_all add: mouseleave_running [OF assms] render_fields cancelAnimationFrame_def)

lemma mouseleave_twice: "mouseleave cfg (mouseleave cfg s) = mouseleave cfg s"
proof (cases "truthy (animationFrameId s)")
  case True
  then have "\<not> truthy (animationFrameId (mouseleave cfg s))"
    by (simp add: mouseleave_fields truthy_def)
  then show ?thesis by (rule mouseleave_idle)
next
  case False
  then show ?thesis by (simp add: mouseleave_idle)
qed

text \<open>
  Claim C4, as stated, fails on the flat hover-only script. After a pointer-enter its
  pointer-leave listener clears the interval, but it leaves the canvas blank although
  twenty nodes exist, keeps the handle variable set, and leaves the animation-frame
  callback requested by \<^verbatim>\<open>draw\<close> pending.
\<close>

theorem flat_stop_counterexample:
  "flatIntervals (flatMouseover \<lparr>width = 300, height = 200\<rparr> (\<lambda>k. 1/2)
      (flatLoaded \<lparr>width = 300, height = 200\<rparr>)) = [1]
   \<and> flatPainted (flatMouseleave (flatMouseover \<lparr>width = 300, height = 200\<rparr> (\<lambda>k. 1/2)
      (flatLoaded \<lparr>width = 300, height = 200\<rparr>))) = []
   \<and> length (flatNodes (flatMouseleave (flatMouseover \<lparr>width = 300, height = 200\<rparr> (\<lambda>k. 1/2)
      (flatLoaded \<lparr>width = 300, height = 200\<rparr>)))) = 20
   \<and> flatAnimationFrameId (flatMouseleave (flatMouseover \<lparr>width = 300, height = 200\<rparr> (\<lambda>k. 1/2)
      (flatLoaded \<lparr>width = 300, height = 200\<rparr>))) = Some 1
   \<and> flatFrameRequests (flatMouseleave (flatMouseover \<lparr>width = 300, height = 200\<rparr> (\<lambda>k. 1/2)
      (flatLoaded \<lparr>width = 300, height = 200\<rparr>))) = [1]"
  by (simp add: flatMouseleave_fields flatMouseover_fields flatLoaded_fields flatCreateNodes_def)

text \<open>
  Claim C4, amended. In the three scripts with a depth axis, a pointer-leave trigger on
  an idle instance changes nothing, neither the state nor the canvas; on a running
  instance it cancels the pending callback, sets the handle to null and calls
  \<^verbatim>\<open>drawNodesAndEdges\<close> exactly once; a second pointer-leave changes nothing more, so
  two in a row make one static render. The flat hover-only script instead clears the
  interval named by its handle and blanks the canvas on every pointer-leave, with no
  guard and no final render.
\<close>

theorem stop_trigger:
  shows "(\<not> truthy (animationFrameId s) \<longrightarrow> mouseleave cfg s = s)
    \<and> (singleLoop s \<and> truthy (animationFrameId s) \<longrightarrow>
         frameRequests (mouseleave cfg s) = []
         \<and> animationFrameId (mouseleave cfg s) = None
         \<and> renders (mouseleave cfg s) = renders s + 1
         \<and> painted (mouseleave cfg s) = snd (drawNodesAndEdges cfg (canvas s) (nodes s))
         \<and> nodes (mouseleave cfg s) = fst (drawNodesAndEdges cfg (canvas s) (nodes s))
         \<and> canvas (mouseleave cfg s) = canvas s)
    \<and> mouseleave cfg (mouseleave cfg s) = mouseleave cfg s
    \<and> renders (mouseleave cfg (mouseleave cfg s))
         = renders s + (if truthy (animationFrameId s) then 1 else 0)
    \<and> flatPainted (flatMouseleave t) = []
    \<and> flatNodes (flatMouseleave t) = flatNodes t
    \<and> flatIntervals (flatMouseleave t) =
         (case flatAnimationFrameId t of
            None \<Rightarrow> flatIntervals t
          | Some h \<Rightarrow> removeAll h (flatIntervals t))"
proof -
  have idle: "\<not> truthy (animationFrameId s) \<longrightarrow> mouseleave cfg s = s"
    by (simp add: mouseleave_idle)
  have running: "singleLoop s \<and> truthy (animationFrameId s) \<longrightarrow>
         frameRequests (mouseleave cfg s) = []
         \<and> animationFrameId (mouseleave cfg s) = None
         \<and> renders (mouseleave cfg s) = renders s + 1
         \<and> painted (mouseleave cfg s) = snd (drawNodesAndEdges cfg (canvas s) (nodes s))
         \<and> nodes (mouseleave cfg s) = fst (drawNodesAndEdges cfg (canvas s) (nodes s))
         \<and> canvas (mouseleave cfg s) = canvas s"
  proof
    assume a: "singleLoop s \<and> truthy (animationFrameId s)"
    then obtain h where "animationFrameId s = Some h" "frameRequests s = [h]"
      by (auto simp: singleLoop_def truthy_def split: option.splits)
    then have "removeAll (the (animationFrameId s)) (frameRequests s) = []" by simp
    with a show "frameRequests (mouseleave cfg s) = []
         \<and> animationFrameId (mouseleave cfg s) = None
         \<and> renders (mouseleave cfg s) = renders s + 1
         \<and> painted (mouseleave cfg s) = snd (drawNodesAndEdges cfg (canvas s) (nodes s))
         \<and> nodes (mouseleave cfg s) = fst (drawNodesAndEdges cfg (canvas s) (nodes s))
         \<and> canvas (mouseleave cfg s) = canvas s"
      by (simp add: mouseleave_fields)
  qed
  have twice: "mouseleave cfg (mouseleave cfg s) = mouseleave cfg s"
    by (rule mouseleave_twice)
  have count: "renders (mouseleave cfg (mouseleave cfg s))
         = renders s + (if truthy (animationFrameId s) then 1 else 0)"
    by (simp add: twice mouseleave_fields mouseleave_idle)
  from idle running twice count show ?thesis
    by (simp add: flatMouseleave_fields)
qed

theorem stop_trigger_witness:
  "singleLoop (mouseover networkGraphConfig (initialize networkGraphConfig \<lparr>width = 300, height = 200\<rparr> (\<lambda>k. 1/2)))
   \<and> truthy (animationFrameId
        (mouseover networkGraphConfig (initialize networkGraphConfig \<lparr>width = 300, height = 200\<rparr> (\<lambda>k. 1/2))))
   \<and> frameRequests (mouseleave networkGraphConfig
        (mouseover networkGraphConfig (initialize networkGraphConfig \<lparr>width = 300, height = 200\<rparr> (\<lambda>k. 1/2)))) = []
   \<and> animationFrameId (mouseleave networkGraphConfig
        (mouseover networkGraphConfig (initialize networkGraphConfig \<lparr>width = 300, height = 200\<rparr> (\<lambda>k. 1/2)))) = None
   \<and> renders (mouseleave networkGraphConfig
        (mouseover networkGraphConfig (initialize networkGraphConfig \<lparr>width = 300, height = 200\<rparr> (\<lambda>k. 1/2)))) = 3
   \<and> \<not> truthy (animationFrameId (initialize networkGraphConfig \<lparr>width = 300, height = 200\<rparr> (\<lambda>k. 1/2)))
   \<and> mouseleave networkGraphConfig (initialize networkGraphConfig \<lparr>width = 300, height = 200\<rparr> (\<lambda>k. 1/2))
       = initialize networkGraphConfig \<lparr>width = 300, height = 200\<rparr> (\<lambda>k. 1/2)"
proof -
  define s0 where "s0 = initialize networkGraphConfig \<lparr>width = 300, height = 200\<rparr> (\<lambda>k. 1/2)"
  define s1 where "s1 = mouseover networkGraphConfig s0"
  have i0: "animationFrameId s0 = None" "renders s0 = 1" "lastRequest s0 = 0"
    by (simp_all add: s0_def initialize_def render_fields)
  have idle: "\<not> truthy (animationFrameId s0)"
    by (simp add: i0 truthy_def)
  have s1: "s1 = animate networkGraphConfig s0"
    by (simp add: s1_def mouseover_def idle)
  have inv: "singleLoop s1"
    unfolding s1_def s0_def by (intro singleLoop_mouseover singleLoop_initialize)
  have run: "truthy (animationFrameId s1)" and r1: "renders s1 = 2"
    by (simp_all add: s1 animate_fields truthy_def i0)
  from stop_trigger [of s1 networkGraphConfig] stop_trigger [of s0 networkGraphConfig] inv run r1 idle
  show ?thesis
    unfolding s1_def s0_def by simp
qed


section \<open>Properties of the discovery pass\<close>

text \<open>
  The two scripts with guards: every tile gets its own outcome, whatever the other tiles
  are; a tile without canvas or without context logs one entry and builds nothing.
\<close>

lemma guarded_discovery:
  "length (initializeVisibleTiles cfg tiles) = length tiles
   \<and> (\<forall>i < length tiles. initializeVisibleTiles cfg tiles ! i = initializeTileGraph cfg (tiles ! i))
   \<and> (networkCanvas t = None \<longrightarrow> initializeTileGraph cfg t = ([CanvasNotFound (dataTitle t)], None))
   \<and> (networkCanvas t = Some c \<and> \<not> context2d c \<longrightarrow>
        initializeTileGraph cfg t = ([NoCanvasContext (dataTitle t)], None))
   \<and> (networkCanvas t = Some c \<and> context2d c \<longrightarrow>
        initializeTileGraph cfg t = ([], Some (initialize cfg (layoutSize c) (randomDraws t))))"
  by (simp add: initializeVisibleTiles_def initializeTileGraph_def)

text \<open>
  Claim C9 on the static-page script: with two tiles of which the first has no canvas,
  the discovery pass ends in a \<^verbatim>\<open>TypeError\<close> and builds no instance, not even for the
  second, well-formed tile; the same happens when the first canvas yields no context.
\<close>

theorem static_discovery_aborts:
  "domContentLoaded
     [\<lparr>networkCanvas = None, dataTitle = ''first'', randomDraws = (\<lambda>k. 1/2)\<rparr>,
      \<lparr>networkCanvas = Some \<lparr>context2d = True, layoutSize = \<lparr>width = 300, height = 200\<rparr>\<rparr>,
       dataTitle = ''second'', randomDraws = (\<lambda>k. 1/2)\<rparr>]
     = ([], Some TypeError)
   \<and> domContentLoaded
     [\<lparr>networkCanvas = Some \<lparr>context2d = False, layoutSize = \<lparr>width = 300, height = 200\<rparr>\<rparr>,
       dataTitle = ''first'', randomDraws = (\<lambda>k. 1/2)\<rparr>,
      \<lparr>networkCanvas = Some \<lparr>context2d = True, layoutSize = \<lparr>width = 300, height = 200\<rparr>\<rparr>,
       dataTitle = ''second'', randomDraws = (\<lambda>k. 1/2)\<rparr>]
     = ([], Some TypeError)
   \<and> map snd (initializeVisibleTiles (filterPageConfig 1)
     [\<lparr>networkCanvas = None, dataTitle = ''first'', randomDraws = (\<lambda>k. 1/2)\<rparr>,
      \<lparr>networkCanvas = Some \<lparr>context2d = True, layoutSize = \<lparr>width = 300, height = 200\<rparr>\<rparr>,
       dataTitle = ''second'', randomDraws = (\<lambda>k. 1/2)\<rparr>])
     = [None, Some (initialize (filterPageConfig 1) \<lparr>width = 300, height = 200\<rparr> (\<lambda>k. 1/2))]"
  by (simp add: staticTileCallback_def initializeVisibleTiles_def initializeTileGraph_def)


end
